theory Spec2Isabelle
  imports Main "HOL-Library.Word"
begin

section \<open>Enumerations used by configure\_graphics.cpp\<close>

text \<open>
  The C and C++ enumerations the file switches on are kept as the 32-bit values they are
  at run time, so that a value outside the named enumerators (which a
  \<^verbatim>\<open>static_cast\<close> from a combobox index or a foreign present mode
  can produce) is an input of the model and the \<^verbatim>\<open>default:\<close>
  branches of the source are branches of the model.

  \<^verbatim>\<open>VkPresentModeKHR\<close> comes from vulkan\_core.h; the enumerator
  values are those of the Vulkan headers.
\<close>

type_synonym VkPresentModeKHR = "32 word"

definition VK_PRESENT_MODE_IMMEDIATE_KHR :: VkPresentModeKHR where
  "VK_PRESENT_MODE_IMMEDIATE_KHR = 0"

definition VK_PRESENT_MODE_MAILBOX_KHR :: VkPresentModeKHR where
  "VK_PRESENT_MODE_MAILBOX_KHR = 1"

definition VK_PRESENT_MODE_FIFO_KHR :: VkPresentModeKHR where
  "VK_PRESENT_MODE_FIFO_KHR = 2"

definition VK_PRESENT_MODE_FIFO_RELAXED_KHR :: VkPresentModeKHR where
  "VK_PRESENT_MODE_FIFO_RELAXED_KHR = 3"

definition VK_PRESENT_MODE_SHARED_DEMAND_REFRESH_KHR :: VkPresentModeKHR where
  "VK_PRESENT_MODE_SHARED_DEMAND_REFRESH_KHR = 1000111000"

text \<open>
  Modelled from the spec: the declarations of \<^verbatim>\<open>Settings::VSyncMode\<close>,
  \<^verbatim>\<open>Settings::RendererBackend\<close> and
  \<^verbatim>\<open>Settings::ShaderBackend\<close> (common/settings.h) are not among the
  sources. The spec gives the setting its four values (Immediate, Mailbox, FIFO,
  FIFORelaxed) and the backend its three (the fixed-function OpenGL, the explicit-device
  Vulkan, and Null); the source names the same enumerators. They are scoped enumerations
  over \<^verbatim>\<open>u32\<close>, numbered here in that order. The general theorems use
  only that the enumerators of one enumeration are pairwise distinct.
\<close>

type_synonym VSyncMode = "32 word"

definition VSyncMode_Immediate :: VSyncMode where
  "VSyncMode_Immediate = 0"

definition VSyncMode_Mailbox :: VSyncMode where
  "VSyncMode_Mailbox = 1"

definition VSyncMode_FIFO :: VSyncMode where
  "VSyncMode_FIFO = 2"

definition VSyncMode_FIFORelaxed :: VSyncMode where
  "VSyncMode_FIFORelaxed = 3"

type_synonym RendererBackend = "32 word"

definition RendererBackend_OpenGL :: RendererBackend where
  "RendererBackend_OpenGL = 0"

definition RendererBackend_Vulkan :: RendererBackend where
  "RendererBackend_Vulkan = 1"

definition RendererBackend_Null :: RendererBackend where
  "RendererBackend_Null = 2"

type_synonym ShaderBackend = "32 word"

section \<open>Conversions between the setting and the present mode\<close>

definition default_present_modes :: "VkPresentModeKHR list" where
  "default_present_modes = [VK_PRESENT_MODE_IMMEDIATE_KHR, VK_PRESENT_MODE_FIFO_KHR]"

definition VSyncSettingToMode :: "VSyncMode \<Rightarrow> VkPresentModeKHR" where
  "VSyncSettingToMode mode =
     (if mode = VSyncMode_Immediate then VK_PRESENT_MODE_IMMEDIATE_KHR
      else if mode = VSyncMode_Mailbox then VK_PRESENT_MODE_MAILBOX_KHR
      else if mode = VSyncMode_FIFO then VK_PRESENT_MODE_FIFO_KHR
      else if mode = VSyncMode_FIFORelaxed then VK_PRESENT_MODE_FIFO_RELAXED_KHR
      else VK_PRESENT_MODE_FIFO_KHR)"

definition PresentModeToSetting :: "VkPresentModeKHR \<Rightarrow> VSyncMode" where
  "PresentModeToSetting mode =
     (if mode = VK_PRESENT_MODE_IMMEDIATE_KHR then VSyncMode_Immediate
      else if mode = VK_PRESENT_MODE_MAILBOX_KHR then VSyncMode_Mailbox
      else if mode = VK_PRESENT_MODE_FIFO_KHR then VSyncMode_FIFO
      else if mode = VK_PRESENT_MODE_FIFO_RELAXED_KHR then VSyncMode_FIFORelaxed
      else VSyncMode_FIFO)"

section \<open>Display names\<close>

text \<open>
  \<^verbatim>\<open>TranslateVSyncMode\<close>. A \<^verbatim>\<open>QString\<close> is a
  string, \<^verbatim>\<open>isEmpty\<close> is equality with the empty string, and
  \<^verbatim>\<open>QStringLiteral("A (%1)").arg(s)\<close> puts \<open>s\<close> in the
  place of the marker. The translation function \<^verbatim>\<open>tr\<close> of the
  widget depends on the installed translator and is a parameter.
\<close>

definition TranslateVSyncMode ::
  "(string \<Rightarrow> string) \<Rightarrow> VkPresentModeKHR \<Rightarrow> RendererBackend \<Rightarrow> string" where
  "TranslateVSyncMode tr_fn mode backend =
     (if mode = VK_PRESENT_MODE_IMMEDIATE_KHR then
        (if backend = RendererBackend_OpenGL then tr_fn ''Off''
         else ''Immediate ('' @ tr_fn ''VSync Off'' @ '')'')
      else if mode = VK_PRESENT_MODE_MAILBOX_KHR then
        ''Mailbox ('' @ tr_fn ''Recommended'' @ '')''
      else if mode = VK_PRESENT_MODE_FIFO_KHR then
        (if backend = RendererBackend_OpenGL then tr_fn ''On''
         else ''FIFO ('' @ tr_fn ''VSync On'' @ '')'')
      else if mode = VK_PRESENT_MODE_FIFO_RELAXED_KHR then ''FIFO Relaxed''
      else [])"

section \<open>Collaborators: the combobox widget and the settings store\<close>

text \<open>
  \<^verbatim>\<open>QComboBox\<close> belongs to the Qt toolkit. The model keeps the
  three things the file reads or writes: the item texts, the current index
  (\<open>-1\<close> when no item is current) and the enabled flag. The operations follow
  the toolkit: \<^verbatim>\<open>clear\<close> removes every item, which leaves no
  current item; \<^verbatim>\<open>insertItem\<close> bounds the position to
  \<open>0..count\<close>, makes the item current when the box was empty, and moves the
  current index along when the item goes in at or before it;
  \<^verbatim>\<open>setCurrentIndex\<close> with a position that is no item leaves no
  current item.
\<close>

record QComboBox =
  items :: "string list"
  currentIndex :: int
  enabled :: bool

definition clear :: "QComboBox \<Rightarrow> QComboBox" where
  "clear cb = cb\<lparr>items := [], currentIndex := - 1\<rparr>"

definition insertItem :: "QComboBox \<Rightarrow> int \<Rightarrow> string \<Rightarrow> QComboBox" where
  "insertItem cb index text =
     (let j = max 0 (min index (int (length (items cb))))
      in cb\<lparr>items := take (nat j) (items cb) @ [text] @ drop (nat j) (items cb),
              currentIndex :=
                (if items cb = [] then 0
                 else if 0 \<le> currentIndex cb \<and> j \<le> currentIndex cb then currentIndex cb + 1
                 else currentIndex cb)\<rparr>)"

definition setCurrentIndex :: "QComboBox \<Rightarrow> int \<Rightarrow> QComboBox" where
  "setCurrentIndex cb index =
     cb\<lparr>currentIndex := (if 0 \<le> index \<and> index < int (length (items cb)) then index else - 1)\<rparr>"

definition setEnabled :: "QComboBox \<Rightarrow> bool \<Rightarrow> QComboBox" where
  "setEnabled cb b = cb\<lparr>enabled := b\<rparr>"

text \<open>
  Modelled from the spec: the class behind \<^verbatim>\<open>Settings::values.vsync_mode\<close>
  and its siblings (a switchable setting of common/settings.h) is not among the sources.
  The spec's settings store keeps a persisted value that is read and written, in a global
  and in a per-profile override mode; accordingly a setting holds a global value, a
  per-profile value and the flag that says which one is in use.
  \<^verbatim>\<open>GetValue\<close> reads and \<^verbatim>\<open>SetValue\<close> writes
  the one in use; \<^verbatim>\<open>SetGlobal\<close> stores the flag.
\<close>

record 'a SwitchableSetting =
  global_value :: 'a
  custom_value :: 'a
  use_global :: bool

definition GetValue :: "'a SwitchableSetting \<Rightarrow> 'a" where
  "GetValue s = (if use_global s then global_value s else custom_value s)"

definition SetValue :: "'a SwitchableSetting \<Rightarrow> 'a \<Rightarrow> 'a SwitchableSetting" where
  "SetValue s v = (if use_global s then s\<lparr>global_value := v\<rparr> else s\<lparr>custom_value := v\<rparr>)"

definition SetGlobal :: "'a SwitchableSetting \<Rightarrow> bool \<Rightarrow> 'a SwitchableSetting" where
  "SetGlobal s to_global = s\<lparr>use_global := to_global\<rparr>"

text \<open>The settings of \<^verbatim>\<open>Settings::values\<close> that the file names.\<close>

record Values =
  values_renderer_backend :: "RendererBackend SwitchableSetting"
  values_vulkan_device :: "32 word SwitchableSetting"
  values_shader_backend :: "ShaderBackend SwitchableSetting"
  values_vsync_mode :: "VSyncMode SwitchableSetting"

text \<open>
  Modelled from the spec: \<^verbatim>\<open>ConfigurationShared::USE_GLOBAL_INDEX\<close>
  and \<^verbatim>\<open>USE_GLOBAL_OFFSET\<close> (configuration\_shared.h) are not among
  the sources. In the per-profile override mode of the spec the API combobox has an entry
  that stands for the global value, and entries before the enumerators: the first is the
  index of that entry, the second the number of entries before the first enumerator.
\<close>

definition USE_GLOBAL_INDEX :: int where
  "USE_GLOBAL_INDEX = 0"

definition USE_GLOBAL_OFFSET :: int where
  "USE_GLOBAL_OFFSET = 2"

section \<open>The state of the ConfigureGraphics tab\<close>

text \<open>
  The members the modelled functions touch, together with the global state they reach:
  \<^verbatim>\<open>Settings::IsConfiguringGlobal()\<close> (\<open>configuring_global\<close>),
  \<^verbatim>\<open>Settings::values\<close> (\<open>settings_values\<close>),
  \<^verbatim>\<open>system.IsPoweredOn()\<close> (\<open>powered_on\<close>) and the
  translator (\<open>tr\<close>). The closures of \<open>apply_funcs\<close> are made by
  \<^verbatim>\<open>ConfigurationShared::CreateWidget\<close>; each one writes its
  widget's value to the settings, so each is a function on the settings.
\<close>

record ConfigureGraphics =
  api_combobox :: QComboBox
  vulkan_device_combobox :: QComboBox
  vsync_mode_combobox :: QComboBox
  vsync_mode_combobox_enum_map :: "VkPresentModeKHR list"
  device_present_modes :: "VkPresentModeKHR list list"
  vulkan_device :: "32 word"
  shader_backend :: ShaderBackend
  apply_funcs :: "(bool \<Rightarrow> Values \<Rightarrow> Values) list"
  tr :: "string \<Rightarrow> string"
  powered_on :: bool
  configuring_global :: bool
  settings_values :: Values

text \<open>
  \<^verbatim>\<open>std::vector::operator[]\<close> does not check its index: a read
  outside the vector is undefined behaviour, which the model reports as a fault. The
  \<^verbatim>\<open>int\<close> index is converted to the unsigned size type, so a
  negative index is outside every vector.
\<close>

datatype fault = OutOfBoundsRead

definition subscript :: "'a list \<Rightarrow> int \<Rightarrow> fault + 'a" where
  "subscript xs i = (if 0 \<le> i \<and> i < int (length xs) then Inr (xs ! nat i) else Inl OutOfBoundsRead)"

section \<open>The functions of the tab\<close>

text \<open>
  \<^verbatim>\<open>GetCurrentGraphicsBackend\<close> returns the backend and, outside the
  global configuration, stores the use-global flag of the renderer backend setting; the
  model returns the state with it.
\<close>

definition GetCurrentGraphicsBackend :: "ConfigureGraphics \<Rightarrow> RendererBackend \<times> ConfigureGraphics" where
  "GetCurrentGraphicsBackend st =
     (if configuring_global st then (word_of_int (currentIndex (api_combobox st)), st)
      else if currentIndex (api_combobox st) = USE_GLOBAL_INDEX then
        (let st' = st\<lparr>settings_values := (settings_values st)
                       \<lparr>values_renderer_backend :=
                          SetGlobal (values_renderer_backend (settings_values st)) True\<rparr>\<rparr>
         in (GetValue (values_renderer_backend (settings_values st')), st'))
      else
        (let st' = st\<lparr>settings_values := (settings_values st)
                       \<lparr>values_renderer_backend :=
                          SetGlobal (values_renderer_backend (settings_values st)) False\<rparr>\<rparr>
         in (word_of_int (currentIndex (api_combobox st) - USE_GLOBAL_OFFSET), st')))"

text \<open>
  The loop of \<^verbatim>\<open>PopulateVSyncModeSelection\<close> over the present modes.
  Its state is the combobox, the enum map, the running \<open>index\<close>, and a record of
  what the loop itself selected: the argument of its last
  \<^verbatim>\<open>setCurrentIndex\<close> call, \<open>None\<close> as long as it made none.
  The widget's current index alone cannot tell a selection made by the loop from the one
  the widget makes on its own when its first item arrives.
\<close>

type_synonym populate_state = "QComboBox \<times> VkPresentModeKHR list \<times> int \<times> int option"

fun populate_loop ::
  "(string \<Rightarrow> string) \<Rightarrow> RendererBackend \<Rightarrow> VkPresentModeKHR \<Rightarrow>
   VkPresentModeKHR list \<Rightarrow> populate_state \<Rightarrow> populate_state" where
  "populate_loop tr_fn backend current_mode [] s = s"
| "populate_loop tr_fn backend current_mode (present_mode # rest) (cb, enum_map, index, selected) =
     (let mode_name = TranslateVSyncMode tr_fn present_mode backend in
      if mode_name = [] then populate_loop tr_fn backend current_mode rest (cb, enum_map, index, selected)
      else
        (let cb1 = insertItem cb index mode_name;
             enum_map1 = enum_map @ [present_mode]
         in if present_mode = current_mode
            then populate_loop tr_fn backend current_mode rest
                   (setCurrentIndex cb1 index, enum_map1, index + 1, Some index)
            else populate_loop tr_fn backend current_mode rest
                   (cb1, enum_map1, index + 1, selected)))"

text \<open>
  \<^verbatim>\<open>PopulateVSyncModeSelection\<close>: the rebuild of the offered list. The
  result is the new state and the index the loop selected (\<open>None\<close> when the
  function made no selection), or the fault of an unchecked read.
\<close>

definition PopulateVSyncModeSelection :: "ConfigureGraphics \<Rightarrow> fault + (ConfigureGraphics \<times> int option)" where
  "PopulateVSyncModeSelection st0 =
     (case GetCurrentGraphicsBackend st0 of (backend, st) \<Rightarrow>
        if backend = RendererBackend_Null then
          Inr (st\<lparr>vsync_mode_combobox := setEnabled (vsync_mode_combobox st) False\<rparr>, None)
        else
          (let st1 = st\<lparr>vsync_mode_combobox := setEnabled (vsync_mode_combobox st) True\<rparr>;
               current_index = currentIndex (vsync_mode_combobox st1)
           in case (if current_index = - 1
                    then Inr (VSyncSettingToMode (GetValue (values_vsync_mode (settings_values st1))))
                    else subscript (vsync_mode_combobox_enum_map st1) current_index) of
                Inl e \<Rightarrow> Inl e
              | Inr current_mode \<Rightarrow>
                  (let device = currentIndex (vulkan_device_combobox st1)
                   in case (if backend = RendererBackend_Vulkan
                            then subscript (device_present_modes st1) device
                            else Inr default_present_modes) of
                        Inl e \<Rightarrow> Inl e
                      | Inr present_modes \<Rightarrow>
                          (case populate_loop (tr st1) backend current_mode present_modes
                                  (clear (vsync_mode_combobox st1), [], 0, None) of
                             (cb, enum_map, index, selected) \<Rightarrow>
                               Inr (st1\<lparr>vsync_mode_combobox := cb,
                                        vsync_mode_combobox_enum_map := enum_map\<rparr>, selected)))))"

definition UpdateDeviceSelection :: "ConfigureGraphics \<Rightarrow> int \<Rightarrow> ConfigureGraphics" where
  "UpdateDeviceSelection st device =
     (if device = - 1 then st
      else case GetCurrentGraphicsBackend st of (backend, st') \<Rightarrow>
        if backend = RendererBackend_Vulkan then st'\<lparr>vulkan_device := word_of_int device\<rparr>
        else st')"

definition UpdateShaderBackendSelection :: "ConfigureGraphics \<Rightarrow> int \<Rightarrow> ConfigureGraphics" where
  "UpdateShaderBackendSelection st backend =
     (if backend = - 1 then st
      else case GetCurrentGraphicsBackend st of (current, st') \<Rightarrow>
        if current = RendererBackend_OpenGL then st'\<lparr>shader_backend := word_of_int backend\<rparr>
        else st')"

text \<open>
  \<^verbatim>\<open>ApplyConfiguration\<close>: runs every apply function with the power
  state, then, in the global configuration only, stores the setting of the selected
  present mode.
\<close>

definition run_apply_funcs :: "ConfigureGraphics \<Rightarrow> ConfigureGraphics" where
  "run_apply_funcs st =
     st\<lparr>settings_values := fold (\<lambda>func v. func (powered_on st) v) (apply_funcs st) (settings_values st)\<rparr>"

definition ApplyConfiguration :: "ConfigureGraphics \<Rightarrow> fault + ConfigureGraphics" where
  "ApplyConfiguration st0 =
     (let st = run_apply_funcs st0 in
      if configuring_global st then
        (case subscript (vsync_mode_combobox_enum_map st) (currentIndex (vsync_mode_combobox st)) of
           Inl e \<Rightarrow> Inl e
         | Inr mode \<Rightarrow>
             Inr (st\<lparr>settings_values := (settings_values st)
                        \<lparr>values_vsync_mode :=
                           SetValue (values_vsync_mode (settings_values st)) (PresentModeToSetting mode)\<rparr>\<rparr>))
      else Inr st)"

section \<open>Vocabulary of the statements\<close>

text \<open>
  The mode the rebuild takes as previously selected (its \<^verbatim>\<open>current_mode\<close>),
  the list it walks (its \<^verbatim>\<open>present_modes\<close>), and the condition under
  which its two unchecked reads stay inside their vectors.
\<close>

definition previous_mode :: "ConfigureGraphics \<Rightarrow> VkPresentModeKHR" where
  "previous_mode st =
     (if currentIndex (vsync_mode_combobox st) = - 1
      then VSyncSettingToMode (GetValue (values_vsync_mode (settings_values st)))
      else vsync_mode_combobox_enum_map st ! nat (currentIndex (vsync_mode_combobox st)))"

definition source_modes :: "RendererBackend \<Rightarrow> ConfigureGraphics \<Rightarrow> VkPresentModeKHR list" where
  "source_modes backend st =
     (if backend = RendererBackend_Vulkan
      then device_present_modes st ! nat (currentIndex (vulkan_device_combobox st))
      else default_present_modes)"

definition reads_in_bounds :: "RendererBackend \<Rightarrow> ConfigureGraphics \<Rightarrow> bool" where
  "reads_in_bounds backend st \<longleftrightarrow>
     (currentIndex (vsync_mode_combobox st) = - 1 \<or>
      (0 \<le> currentIndex (vsync_mode_combobox st) \<and>
       currentIndex (vsync_mode_combobox st) < int (length (vsync_mode_combobox_enum_map st)))) \<and>
     (backend \<noteq> RendererBackend_Vulkan \<or>
      (0 \<le> currentIndex (vulkan_device_combobox st) \<and>
       currentIndex (vulkan_device_combobox st) < int (length (device_present_modes st))))"

text \<open>The last position of an element in a list, if it occurs.\<close>

fun last_position :: "'a \<Rightarrow> 'a list \<Rightarrow> nat option" where
  "last_position x [] = None"
| "last_position x (y # ys) =
     (case last_position x ys of
        Some k \<Rightarrow> Some (Suc k)
      | None \<Rightarrow> if y = x then Some 0 else None)"

text \<open>
  The user's choice of an entry of the API combobox, and the round trip of the backend:
  choose the entry \<open>other\<close>, rebuild, choose the entry \<open>api\<close> again,
  rebuild.
\<close>

definition select_api :: "ConfigureGraphics \<Rightarrow> int \<Rightarrow> ConfigureGraphics" where
  "select_api st i = st\<lparr>api_combobox := setCurrentIndex (api_combobox st) i\<rparr>"

definition backend_round_trip ::
  "int \<Rightarrow> int \<Rightarrow> ConfigureGraphics \<Rightarrow> fault + (ConfigureGraphics \<times> int option)" where
  "backend_round_trip other api st =
     (case PopulateVSyncModeSelection (select_api st other) of
        Inl e \<Rightarrow> Inl e
      | Inr (st2, selected2) \<Rightarrow> PopulateVSyncModeSelection (select_api st2 api))"

text \<open>
  Two settings stores that differ at most in the use-global flag of the renderer backend
  setting.
\<close>

definition same_but_use_global :: "Values \<Rightarrow> Values \<Rightarrow> bool" where
  "same_but_use_global v v' \<longleftrightarrow>
     v' = v\<lparr>values_renderer_backend :=
             (values_renderer_backend v)\<lparr>use_global := use_global (values_renderer_backend v')\<rparr>\<rparr>"

section \<open>Concrete states\<close>

text \<open>
  A tab in the global configuration: the API combobox is on Vulkan, one device that
  supports Immediate, Mailbox and FIFO, the VSync combobox not populated yet, and Mailbox
  as the persisted setting.
\<close>

definition example_tab :: ConfigureGraphics where
  "example_tab =
     \<lparr>api_combobox = \<lparr>items = [''OpenGL'', ''Vulkan'', ''Null''], currentIndex = 1, enabled = True\<rparr>,
      vulkan_device_combobox = \<lparr>items = [''GPU 0''], currentIndex = 0, enabled = True\<rparr>,
      vsync_mode_combobox = \<lparr>items = [], currentIndex = - 1, enabled = True\<rparr>,
      vsync_mode_combobox_enum_map = [],
      device_present_modes =
        [[VK_PRESENT_MODE_IMMEDIATE_KHR, VK_PRESENT_MODE_MAILBOX_KHR, VK_PRESENT_MODE_FIFO_KHR]],
      vulkan_device = 0,
      shader_backend = 0,
      apply_funcs = [],
      tr = (\<lambda>s. s),
      powered_on = False,
      configuring_global = True,
      settings_values =
        \<lparr>values_renderer_backend =
           \<lparr>global_value = RendererBackend_Vulkan, custom_value = RendererBackend_OpenGL,
            use_global = True\<rparr>,
         values_vulkan_device = \<lparr>global_value = 0, custom_value = 0, use_global = True\<rparr>,
         values_shader_backend = \<lparr>global_value = 0, custom_value = 0, use_global = True\<rparr>,
         values_vsync_mode =
           \<lparr>global_value = VSyncMode_Mailbox, custom_value = VSyncMode_FIFO, use_global = True\<rparr>\<rparr>\<rparr>"

text \<open>The same tab with the VSync combobox populated for Vulkan and Mailbox selected.\<close>

definition vulkan_names :: "string list" where
  "vulkan_names = [''Immediate (VSync Off)'', ''Mailbox (Recommended)'', ''FIFO (VSync On)'']"

definition populated_tab :: ConfigureGraphics where
  "populated_tab =
     example_tab
       \<lparr>vsync_mode_combobox := \<lparr>items = vulkan_names, currentIndex = 1, enabled = True\<rparr>,
        vsync_mode_combobox_enum_map :=
          [VK_PRESENT_MODE_IMMEDIATE_KHR, VK_PRESENT_MODE_MAILBOX_KHR, VK_PRESENT_MODE_FIFO_KHR]\<rparr>"

text \<open>The populated tab after the user chose the Null entry of the API combobox.\<close>

definition null_tab :: ConfigureGraphics where
  "null_tab = select_api populated_tab 2"

text \<open>A machine without a Vulkan device: no record, an empty device combobox.\<close>

definition no_device_tab :: ConfigureGraphics where
  "no_device_tab =
     example_tab
       \<lparr>vulkan_device_combobox := \<lparr>items = [], currentIndex = - 1, enabled = True\<rparr>,
        device_present_modes := []\<rparr>"

text \<open>
  A tab in a per-profile configuration whose API combobox is on the entry for the global
  value, while the renderer backend setting still has its per-profile value in use.
\<close>

definition per_profile_tab :: ConfigureGraphics where
  "per_profile_tab =
     populated_tab
       \<lparr>api_combobox :=
          \<lparr>items = [''Use global configuration'', [], ''OpenGL'', ''Vulkan'', ''Null''],
           currentIndex = 0, enabled = True\<rparr>,
        configuring_global := False,
        settings_values := (settings_values populated_tab)
          \<lparr>values_renderer_backend :=
             \<lparr>global_value = RendererBackend_Vulkan, custom_value = RendererBackend_OpenGL,
              use_global = False\<rparr>\<rparr>\<rparr>"

text \<open>
  The first tab with FIFO Relaxed as the persisted setting, a mode its device does not
  support, and the state its rebuild produces.
\<close>

definition relaxed_tab :: ConfigureGraphics where
  "relaxed_tab =
     example_tab
       \<lparr>settings_values := (settings_values example_tab)
          \<lparr>values_vsync_mode :=
             \<lparr>global_value = VSyncMode_FIFORelaxed, custom_value = VSyncMode_FIFO,
              use_global = True\<rparr>\<rparr>\<rparr>"

definition relaxed_tab_rebuilt :: ConfigureGraphics where
  "relaxed_tab_rebuilt =
     relaxed_tab
       \<lparr>vsync_mode_combobox := \<lparr>items = vulkan_names, currentIndex = 0, enabled = True\<rparr>,
        vsync_mode_combobox_enum_map :=
          [VK_PRESENT_MODE_IMMEDIATE_KHR, VK_PRESENT_MODE_MAILBOX_KHR, VK_PRESENT_MODE_FIFO_KHR]\<rparr>"

text \<open>
  The populated tabs, of the global and of the per-profile configuration, after the user
  chose the FIFO entry of the VSync combobox.
\<close>

definition fifo_chosen_tab :: ConfigureGraphics where
  "fifo_chosen_tab =
     populated_tab\<lparr>vsync_mode_combobox := (vsync_mode_combobox populated_tab)\<lparr>currentIndex := 2\<rparr>\<rparr>"

definition per_profile_fifo_tab :: ConfigureGraphics where
  "per_profile_fifo_tab =
     per_profile_tab\<lparr>vsync_mode_combobox := (vsync_mode_combobox per_profile_tab)\<lparr>currentIndex := 2\<rparr>\<rparr>"

text \<open>
  The populated tab of a user whose persisted setting is Immediate and who chose the
  Mailbox entry, and the same tab after the user chose the OpenGL entry of the API combobox
  and the VSync combobox was rebuilt.
\<close>

definition chosen_mailbox_tab :: ConfigureGraphics where
  "chosen_mailbox_tab =
     populated_tab
       \<lparr>settings_values := (settings_values populated_tab)
          \<lparr>values_vsync_mode :=
             \<lparr>global_value = VSyncMode_Immediate, custom_value = VSyncMode_FIFO,
              use_global = True\<rparr>\<rparr>\<rparr>"

definition chosen_mailbox_opengl_tab :: ConfigureGraphics where
  "chosen_mailbox_opengl_tab =
     (select_api chosen_mailbox_tab 0)
       \<lparr>vsync_mode_combobox := \<lparr>items = [''Off'', ''On''], currentIndex = 0, enabled = True\<rparr>,
        vsync_mode_combobox_enum_map := [VK_PRESENT_MODE_IMMEDIATE_KHR, VK_PRESENT_MODE_FIFO_KHR]\<rparr>"

section \<open>Facts about the enumerations and the loop\<close>

lemmas present_mode_defs =
  VK_PRESENT_MODE_IMMEDIATE_KHR_def VK_PRESENT_MODE_MAILBOX_KHR_def
  VK_PRESENT_MODE_FIFO_KHR_def VK_PRESENT_MODE_FIFO_RELAXED_KHR_def
  VK_PRESENT_MODE_SHARED_DEMAND_REFRESH_KHR_def

lemmas vsync_mode_defs =
  VSyncMode_Immediate_def VSyncMode_Mailbox_def VSyncMode_FIFO_def VSyncMode_FIFORelaxed_def

lemmas renderer_backend_defs =
  RendererBackend_OpenGL_def RendererBackend_Vulkan_def RendererBackend_Null_def

lemma last_position_None: "last_position x xs = None \<longleftrightarrow> x \<notin> set xs"
  by (induction xs) (auto split: option.splits)

lemma last_position_Some:
  "last_position x xs = Some k \<Longrightarrow>
     k < length xs \<and> xs ! k = x \<and> (\<forall>j. k < j \<and> j < length xs \<longrightarrow> xs ! j \<noteq> x)"
proof (induction xs arbitrary: k)
  case Nil
  then show ?case by simp
next
  case (Cons y ys)
  show ?case
  proof (cases "last_position x ys")
    case None
    with Cons.prems have k: "k = 0" "y = x" by (auto split: if_splits)
    from None have "x \<notin> set ys" by (simp add: last_position_None)
    then have "\<forall>j. 0 < j \<and> j < length (y # ys) \<longrightarrow> (y # ys) ! j \<noteq> x"
      by (auto simp: nth_Cons split: nat.splits)
    with k show ?thesis by simp
  next
    case (Some k')
    with Cons.prems have k: "k = Suc k'" by simp
    from Cons.IH [OF Some] have ih: "k' < length ys" "ys ! k' = x"
      "\<forall>j. k' < j \<and> j < length ys \<longrightarrow> ys ! j \<noteq> x" by auto
    have "\<forall>j. Suc k' < j \<and> j < length (y # ys) \<longrightarrow> (y # ys) ! j \<noteq> x"
      using ih(3) by (auto simp: nth_Cons split: nat.splits)
    with k ih show ?thesis by simp
  qed
qed

lemma last_position_distinct:
  "distinct xs \<Longrightarrow> k < length xs \<Longrightarrow> last_position (xs ! k) xs = Some k"
proof -
  assume d: "distinct xs" and k: "k < length xs"
  then have "xs ! k \<in> set xs" by simp
  then obtain k' where s: "last_position (xs ! k) xs = Some k'"
    using last_position_None [of "xs ! k" xs] by (cases "last_position (xs ! k) xs") auto
  from last_position_Some [OF s] have "k' < length xs" "xs ! k' = xs ! k" by auto
  with d k have "k' = k" by (simp add: nth_eq_iff_index_eq)
  with s show ?thesis by simp
qed

lemma insertItem_at_end:
  "index = int (length (items cb)) \<Longrightarrow> currentIndex cb < index \<Longrightarrow>
   insertItem cb index name =
     cb\<lparr>items := items cb @ [name],
        currentIndex := (if items cb = [] then 0 else currentIndex cb)\<rparr>"
  by (simp add: insertItem_def Let_def)

lemma populate_loop_closed_form:
  "index = int (length (items cb)) \<Longrightarrow> currentIndex cb < index \<Longrightarrow>
   populate_loop tr_fn backend cur pms (cb, em, index, sel) =
     (let offered = filter (\<lambda>m. TranslateVSyncMode tr_fn m backend \<noteq> []) pms in
      (cb\<lparr>items := items cb @ map (\<lambda>m. TranslateVSyncMode tr_fn m backend) offered,
          currentIndex :=
            (case last_position cur offered of
               Some k \<Rightarrow> index + int k
             | None \<Rightarrow> if items cb = [] \<and> offered \<noteq> [] then 0 else currentIndex cb)\<rparr>,
       em @ offered,
       index + int (length offered),
       (case last_position cur offered of Some k \<Rightarrow> Some (index + int k) | None \<Rightarrow> sel)))"
proof (induction pms arbitrary: cb em index sel)
  case Nil
  then show ?case by simp
next
  case (Cons pm pms)
  show ?case
  proof (cases "TranslateVSyncMode tr_fn pm backend = []")
    case True
    then show ?thesis using Cons.IH [OF Cons.prems] by (simp add: Let_def)
  next
    case False
    let ?name = "TranslateVSyncMode tr_fn pm backend"
    let ?cb1 = "cb\<lparr>items := items cb @ [?name],
        currentIndex := (if items cb = [] then 0 else currentIndex cb)\<rparr>"
    have ins: "insertItem cb index ?name = ?cb1"
      using Cons.prems by (rule insertItem_at_end)
    show ?thesis
    proof (cases "pm = cur")
      case True
      let ?cb2 = "cb\<lparr>items := items cb @ [?name], currentIndex := index\<rparr>"
      have cb2: "setCurrentIndex ?cb1 index = ?cb2"
        using Cons.prems by (simp add: setCurrentIndex_def)
      have p: "index + 1 = int (length (items ?cb2))" "currentIndex ?cb2 < index + 1"
        using Cons.prems by simp_all
      show ?thesis
        using False True ins cb2 Cons.IH [OF p, of "em @ [pm]" "Some index"]
        by (simp add: Let_def split: option.splits)
    next
      case neq: False
      have p: "index + 1 = int (length (items ?cb1))" "currentIndex ?cb1 < index + 1"
        using Cons.prems by simp_all
      show ?thesis
        using False neq ins Cons.IH [OF p, of "em @ [pm]" sel] Cons.prems
        by (auto simp add: Let_def split: option.splits)
    qed
  qed
qed


lemma GetCurrentGraphicsBackend_state:
  "snd (GetCurrentGraphicsBackend st) =
     (if configuring_global st then st
      else st\<lparr>settings_values := (settings_values st)
               \<lparr>values_renderer_backend := (values_renderer_backend (settings_values st))
                  \<lparr>use_global := (currentIndex (api_combobox st) = USE_GLOBAL_INDEX)\<rparr>\<rparr>\<rparr>)"
  by (simp add: GetCurrentGraphicsBackend_def SetGlobal_def Let_def)

lemma GetCurrentGraphicsBackend_frame:
  assumes "GetCurrentGraphicsBackend st = (b, st0)"
  shows "vsync_mode_combobox st0 = vsync_mode_combobox st"
    and "vsync_mode_combobox_enum_map st0 = vsync_mode_combobox_enum_map st"
    and "device_present_modes st0 = device_present_modes st"
    and "vulkan_device_combobox st0 = vulkan_device_combobox st"
    and "api_combobox st0 = api_combobox st"
    and "tr st0 = tr st"
    and "configuring_global st0 = configuring_global st"
    and "vulkan_device st0 = vulkan_device st"
    and "shader_backend st0 = shader_backend st"
    and "values_vsync_mode (settings_values st0) = values_vsync_mode (settings_values st)"
proof -
  have "st0 = snd (GetCurrentGraphicsBackend st)" using assms by simp
  then have *: "st0 = (if configuring_global st then st
      else st\<lparr>settings_values := (settings_values st)
               \<lparr>values_renderer_backend := (values_renderer_backend (settings_values st))
                  \<lparr>use_global := (currentIndex (api_combobox st) = USE_GLOBAL_INDEX)\<rparr>\<rparr>\<rparr>)"
    by (simp only: GetCurrentGraphicsBackend_state)
  show "vsync_mode_combobox st0 = vsync_mode_combobox st"
    and "vsync_mode_combobox_enum_map st0 = vsync_mode_combobox_enum_map st"
    and "device_present_modes st0 = device_present_modes st"
    and "vulkan_device_combobox st0 = vulkan_device_combobox st"
    and "api_combobox st0 = api_combobox st"
    and "tr st0 = tr st"
    and "configuring_global st0 = configuring_global st"
    and "vulkan_device st0 = vulkan_device st"
    and "shader_backend st0 = shader_backend st"
    and "values_vsync_mode (settings_values st0) = values_vsync_mode (settings_values st)"
    by (simp_all add: *)
qed

lemma Populate_in_bounds:
  assumes g: "GetCurrentGraphicsBackend st = (b, st0)"
    and nn: "b \<noteq> RendererBackend_Null"
    and rd: "reads_in_bounds b st"
  shows "PopulateVSyncModeSelection st =
     (let offered = filter (\<lambda>m. TranslateVSyncMode (tr st) m b \<noteq> []) (source_modes b st);
          found = last_position (previous_mode st) offered
      in Inr (st0\<lparr>vsync_mode_combobox := (vsync_mode_combobox st)
                     \<lparr>items := map (\<lambda>m. TranslateVSyncMode (tr st) m b) offered,
                      currentIndex := (case found of Some k \<Rightarrow> int k
                                       | None \<Rightarrow> if offered = [] then - 1 else 0),
                      enabled := True\<rparr>,
                   vsync_mode_combobox_enum_map := offered\<rparr>,
              map_option int found))"
proof -
  note fr = GetCurrentGraphicsBackend_frame [OF g]
  define st1 where "st1 = st0\<lparr>vsync_mode_combobox := setEnabled (vsync_mode_combobox st0) True\<rparr>"
  define cb where "cb = clear (vsync_mode_combobox st1)"
  have s1: "currentIndex (vsync_mode_combobox st1) = currentIndex (vsync_mode_combobox st)"
    "vsync_mode_combobox_enum_map st1 = vsync_mode_combobox_enum_map st"
    "device_present_modes st1 = device_present_modes st"
    "vulkan_device_combobox st1 = vulkan_device_combobox st"
    "tr st1 = tr st"
    "values_vsync_mode (settings_values st1) = values_vsync_mode (settings_values st)"
    by (simp_all add: st1_def fr setEnabled_def)
  have cm: "(if currentIndex (vsync_mode_combobox st1) = - 1
             then Inr (VSyncSettingToMode (GetValue (values_vsync_mode (settings_values st1))))
             else subscript (vsync_mode_combobox_enum_map st1) (currentIndex (vsync_mode_combobox st1)))
            = Inr (previous_mode st)"
    using rd by (auto simp add: s1 reads_in_bounds_def previous_mode_def subscript_def)
  have pm: "(if b = RendererBackend_Vulkan
             then subscript (device_present_modes st1) (currentIndex (vulkan_device_combobox st1))
             else Inr default_present_modes) = Inr (source_modes b st)"
    using rd by (auto simp add: s1 reads_in_bounds_def source_modes_def subscript_def)
  have cbv: "cb = (vsync_mode_combobox st)\<lparr>items := [], currentIndex := - 1, enabled := True\<rparr>"
    by (simp add: cb_def st1_def fr clear_def setEnabled_def)
  have pre: "(0::int) = int (length (items cb))" "currentIndex cb < 0"
    by (simp_all add: cbv)
  note loop = populate_loop_closed_form [OF pre, of "tr st" b "previous_mode st" "source_modes b st" "[]" None]
  have unf: "PopulateVSyncModeSelection st =
      (case populate_loop (tr st) b (previous_mode st) (source_modes b st) (cb, [], 0, None) of
         (cb', enum_map, index, selected) \<Rightarrow>
           Inr (st1\<lparr>vsync_mode_combobox := cb', vsync_mode_combobox_enum_map := enum_map\<rparr>, selected))"
    unfolding PopulateVSyncModeSelection_def g prod.case Let_def
    unfolding st1_def [symmetric]
    unfolding cm pm cb_def [symmetric]
    using nn by (simp add: s1)
  show ?thesis
    unfolding unf loop
    by (cases "last_position (previous_mode st) (filter (\<lambda>m. TranslateVSyncMode (tr st) m b \<noteq> []) (source_modes b st))")
       (simp_all add: Let_def cbv st1_def)
qed

lemma Populate_out_of_bounds:
  assumes g: "GetCurrentGraphicsBackend st = (b, st0)"
    and nn: "b \<noteq> RendererBackend_Null"
    and rd: "\<not> reads_in_bounds b st"
  shows "PopulateVSyncModeSelection st = Inl OutOfBoundsRead"
  using nn rd GetCurrentGraphicsBackend_frame [OF g]
  by (auto simp add: PopulateVSyncModeSelection_def g Let_def reads_in_bounds_def
        subscript_def setEnabled_def split: sum.splits)

lemmas example_defs =
  example_tab_def populated_tab_def vulkan_names_def null_tab_def no_device_tab_def
  per_profile_tab_def relaxed_tab_def relaxed_tab_rebuilt_def

lemmas model_defs =
  reads_in_bounds_def source_modes_def previous_mode_def TranslateVSyncMode_def
  VSyncSettingToMode_def GetValue_def Let_def select_api_def setCurrentIndex_def

lemma Populate_Inr_reads:
  assumes "GetCurrentGraphicsBackend st = (b, st0)" "b \<noteq> RendererBackend_Null"
    "PopulateVSyncModeSelection st = Inr r"
  shows "reads_in_bounds b st"
  using assms Populate_out_of_bounds [of st b st0] by (cases "reads_in_bounds b st") auto

lemma GetValue_SetValue: "GetValue (SetValue s v) = v"
  by (simp add: GetValue_def SetValue_def)

lemma Populate_settings:
  assumes "PopulateVSyncModeSelection st = Inr (st', selected)"
  shows "settings_values st' = settings_values (snd (GetCurrentGraphicsBackend st))"
proof -
  obtain b st0 where g: "GetCurrentGraphicsBackend st = (b, st0)"
    by (cases "GetCurrentGraphicsBackend st")
  show ?thesis
  proof (cases "b = RendererBackend_Null")
    case True
    with assms g show ?thesis
      by (auto simp add: PopulateVSyncModeSelection_def)
  next
    case False
    have rd: "reads_in_bounds b st"
      using g False assms by (rule Populate_Inr_reads)
    from Populate_in_bounds [OF g False rd] assms g show ?thesis
      by (auto simp add: Let_def)
  qed
qed

lemmas round_trip_defs = chosen_mailbox_tab_def chosen_mailbox_opengl_tab_def fifo_chosen_tab_def
  default_present_modes_def

lemma backend_cong:
  assumes "configuring_global a = configuring_global b"
    and "currentIndex (api_combobox a) = currentIndex (api_combobox b)"
    and "global_value (values_renderer_backend (settings_values a)) =
         global_value (values_renderer_backend (settings_values b))"
  shows "fst (GetCurrentGraphicsBackend a) = fst (GetCurrentGraphicsBackend b)"
  using assms by (simp add: GetCurrentGraphicsBackend_def SetGlobal_def GetValue_def Let_def)

lemma GetCurrentGraphicsBackend_global_value:
  "global_value (values_renderer_backend (settings_values (snd (GetCurrentGraphicsBackend st)))) =
   global_value (values_renderer_backend (settings_values st))"
  by (simp add: GetCurrentGraphicsBackend_state)

text \<open>What a rebuild that stays in bounds returns, field by field.\<close>

lemma Populate_fields:
  assumes g: "fst (GetCurrentGraphicsBackend st) = b"
    and nn: "b \<noteq> RendererBackend_Null"
    and rd: "reads_in_bounds b st"
  shows "\<exists>st' sel. PopulateVSyncModeSelection st = Inr (st', sel)
    \<and> vsync_mode_combobox_enum_map st' =
        filter (\<lambda>m. TranslateVSyncMode (tr st) m b \<noteq> []) (source_modes b st)
    \<and> items (vsync_mode_combobox st') =
        map (\<lambda>m. TranslateVSyncMode (tr st) m b)
          (filter (\<lambda>m. TranslateVSyncMode (tr st) m b \<noteq> []) (source_modes b st))
    \<and> currentIndex (vsync_mode_combobox st') =
        (case last_position (previous_mode st)
                (filter (\<lambda>m. TranslateVSyncMode (tr st) m b \<noteq> []) (source_modes b st)) of
           Some k \<Rightarrow> int k
         | None \<Rightarrow> if filter (\<lambda>m. TranslateVSyncMode (tr st) m b \<noteq> []) (source_modes b st) = []
                   then - 1 else 0)
    \<and> sel = map_option int (last_position (previous_mode st)
                (filter (\<lambda>m. TranslateVSyncMode (tr st) m b \<noteq> []) (source_modes b st)))
    \<and> api_combobox st' = api_combobox st
    \<and> vulkan_device_combobox st' = vulkan_device_combobox st
    \<and> device_present_modes st' = device_present_modes st
    \<and> tr st' = tr st
    \<and> configuring_global st' = configuring_global st
    \<and> values_vsync_mode (settings_values st') = values_vsync_mode (settings_values st)
    \<and> global_value (values_renderer_backend (settings_values st')) =
        global_value (values_renderer_backend (settings_values st))"
proof -
  obtain st0 where g': "GetCurrentGraphicsBackend st = (b, st0)"
    using g by (cases "GetCurrentGraphicsBackend st") auto
  note fr = GetCurrentGraphicsBackend_frame [OF g']
  have gv: "global_value (values_renderer_backend (settings_values st0)) =
        global_value (values_renderer_backend (settings_values st))"
    using GetCurrentGraphicsBackend_global_value [of st] g' by simp
  show ?thesis
    unfolding Populate_in_bounds [OF g' nn rd] Let_def
    by (simp add: fr gv)
qed


lemma last_position_range:
  "(case last_position x xs of Some k \<Rightarrow> int k | None \<Rightarrow> if xs = [] then - 1 else 0) = - 1 \<or>
   (0 \<le> (case last_position x xs of Some k \<Rightarrow> int k | None \<Rightarrow> if xs = [] then - 1 else 0) \<and>
    (case last_position x xs of Some k \<Rightarrow> int k | None \<Rightarrow> if xs = [] then - 1 else 0)
      < int (length xs))"
proof (cases "last_position x xs")
  case None
  then show ?thesis by (cases xs) simp_all
next
  case (Some k)
  with last_position_Some [OF Some] show ?thesis by simp
qed

section \<open>Evaluating the concrete states\<close>

lemma example_tab_backend:
  "GetCurrentGraphicsBackend example_tab = (RendererBackend_Vulkan, example_tab)"
  by (simp add: GetCurrentGraphicsBackend_def example_tab_def RendererBackend_Vulkan_def)

lemma example_tab_rebuild:
  "PopulateVSyncModeSelection example_tab = Inr (populated_tab, Some 1)"
  using Populate_in_bounds [OF example_tab_backend]
  by (simp add: reads_in_bounds_def source_modes_def previous_mode_def example_tab_def
      populated_tab_def vulkan_names_def TranslateVSyncMode_def present_mode_defs
      renderer_backend_defs vsync_mode_defs VSyncSettingToMode_def GetValue_def Let_def)


lemma relaxed_tab_backend:
  "GetCurrentGraphicsBackend relaxed_tab = (RendererBackend_Vulkan, relaxed_tab)"
  by (simp add: GetCurrentGraphicsBackend_def example_defs RendererBackend_Vulkan_def)

lemma relaxed_tab_rebuild:
  "PopulateVSyncModeSelection relaxed_tab = Inr (relaxed_tab_rebuilt, None)"
  using Populate_in_bounds [OF relaxed_tab_backend]
  by (simp add: model_defs example_defs present_mode_defs renderer_backend_defs vsync_mode_defs)

lemma null_tab_backend:
  "GetCurrentGraphicsBackend null_tab = (RendererBackend_Null, null_tab)"
  by (simp add: GetCurrentGraphicsBackend_def example_defs model_defs RendererBackend_Null_def)

lemma fresh_null_backend:
  "GetCurrentGraphicsBackend (select_api example_tab 2) =
     (RendererBackend_Null, select_api example_tab 2)"
  by (simp add: GetCurrentGraphicsBackend_def example_defs model_defs RendererBackend_Null_def)

lemma no_device_tab_backend:
  "GetCurrentGraphicsBackend no_device_tab = (RendererBackend_Vulkan, no_device_tab)"
  by (simp add: GetCurrentGraphicsBackend_def example_defs RendererBackend_Vulkan_def)

lemma per_profile_tab_backend:
  "GetCurrentGraphicsBackend per_profile_tab =
     (RendererBackend_Vulkan,
      per_profile_tab
        \<lparr>settings_values := (settings_values per_profile_tab)
           \<lparr>values_renderer_backend := (values_renderer_backend (settings_values per_profile_tab))
              \<lparr>use_global := True\<rparr>\<rparr>\<rparr>)"
  by (simp add: GetCurrentGraphicsBackend_def example_defs USE_GLOBAL_INDEX_def SetGlobal_def
      GetValue_def)

lemma per_profile_tab_rebuild:
  "PopulateVSyncModeSelection per_profile_tab =
     Inr (per_profile_tab
            \<lparr>settings_values := (settings_values per_profile_tab)
               \<lparr>values_renderer_backend := (values_renderer_backend (settings_values per_profile_tab))
                  \<lparr>use_global := True\<rparr>\<rparr>\<rparr>, Some 1)"
  using Populate_in_bounds [OF per_profile_tab_backend]
  by (simp add: model_defs example_defs present_mode_defs renderer_backend_defs vsync_mode_defs)

lemma chosen_mailbox_tab_backend:
  "GetCurrentGraphicsBackend chosen_mailbox_tab = (RendererBackend_Vulkan, chosen_mailbox_tab)"
  by (simp add: GetCurrentGraphicsBackend_def round_trip_defs example_defs RendererBackend_Vulkan_def)

lemma chosen_mailbox_tab_rebuild:
  "PopulateVSyncModeSelection chosen_mailbox_tab = Inr (chosen_mailbox_tab, Some 1)"
  using Populate_in_bounds [OF chosen_mailbox_tab_backend]
  by (simp add: model_defs round_trip_defs example_defs present_mode_defs renderer_backend_defs
        vsync_mode_defs)

lemma chosen_mailbox_tab_opengl_backend:
  "GetCurrentGraphicsBackend (select_api chosen_mailbox_tab 0) =
     (RendererBackend_OpenGL, select_api chosen_mailbox_tab 0)"
  by (simp add: GetCurrentGraphicsBackend_def round_trip_defs example_defs model_defs
        RendererBackend_OpenGL_def)

lemma chosen_mailbox_tab_opengl_rebuild:
  "PopulateVSyncModeSelection (select_api chosen_mailbox_tab 0) =
     Inr (chosen_mailbox_opengl_tab, None)"
  using Populate_in_bounds [OF chosen_mailbox_tab_opengl_backend]
  by (simp add: model_defs round_trip_defs example_defs present_mode_defs renderer_backend_defs
        vsync_mode_defs)

lemma chosen_mailbox_tab_back_backend:
  "GetCurrentGraphicsBackend (select_api chosen_mailbox_opengl_tab 1) =
     (RendererBackend_Vulkan, select_api chosen_mailbox_opengl_tab 1)"
  by (simp add: GetCurrentGraphicsBackend_def round_trip_defs example_defs model_defs
        RendererBackend_Vulkan_def)

lemma chosen_mailbox_tab_back_rebuild:
  "PopulateVSyncModeSelection (select_api chosen_mailbox_opengl_tab 1) =
     Inr (chosen_mailbox_tab
            \<lparr>vsync_mode_combobox := (vsync_mode_combobox chosen_mailbox_tab)\<lparr>currentIndex := 0\<rparr>\<rparr>,
          Some 0)"
  using Populate_in_bounds [OF chosen_mailbox_tab_back_backend]
  by (simp add: model_defs round_trip_defs example_defs present_mode_defs renderer_backend_defs
        vsync_mode_defs)

lemma fifo_chosen_tab_backend:
  "GetCurrentGraphicsBackend fifo_chosen_tab = (RendererBackend_Vulkan, fifo_chosen_tab)"
  by (simp add: GetCurrentGraphicsBackend_def round_trip_defs example_defs RendererBackend_Vulkan_def)

lemma fifo_chosen_tab_rebuild:
  "PopulateVSyncModeSelection fifo_chosen_tab = Inr (fifo_chosen_tab, Some 2)"
  using Populate_in_bounds [OF fifo_chosen_tab_backend]
  by (simp add: model_defs round_trip_defs example_defs present_mode_defs renderer_backend_defs
        vsync_mode_defs)

lemma fifo_chosen_tab_opengl_backend:
  "fst (GetCurrentGraphicsBackend (select_api fifo_chosen_tab 0)) = RendererBackend_OpenGL"
  by (simp add: GetCurrentGraphicsBackend_def round_trip_defs example_defs model_defs
        RendererBackend_OpenGL_def)

lemma fifo_chosen_tab_api: "select_api fifo_chosen_tab 1 = fifo_chosen_tab"
  by (simp add: round_trip_defs example_defs model_defs)

section \<open>The offered list\<close>

text \<open>
  C1. For every backend other than Null, a rebuild whose two unchecked reads stay inside
  their vectors (the VSync combobox has no current item or one inside the enum map, and
  under Vulkan the device combobox's index is inside the device list) returns, and the enum
  map it produces is the source list (the present modes of the device selected in the
  device combobox when the backend is Vulkan, the default list of Immediate and FIFO
  otherwise) in source order, restricted to the modes whose name under the backend is not
  empty; the combobox items are the names of these modes in the same order.
\<close>

theorem rebuild_offers_named_source_modes:
  assumes "fst (GetCurrentGraphicsBackend st) = backend"
    and "backend \<noteq> RendererBackend_Null"
    and "currentIndex (vsync_mode_combobox st) = - 1 \<or>
         (0 \<le> currentIndex (vsync_mode_combobox st) \<and>
          currentIndex (vsync_mode_combobox st) < int (length (vsync_mode_combobox_enum_map st)))"
    and "backend = RendererBackend_Vulkan \<longrightarrow>
         0 \<le> currentIndex (vulkan_device_combobox st) \<and>
         currentIndex (vulkan_device_combobox st) < int (length (device_present_modes st))"
  shows "\<exists>st' selected.
           PopulateVSyncModeSelection st = Inr (st', selected)
           \<and> vsync_mode_combobox_enum_map st' =
               filter (\<lambda>mode. TranslateVSyncMode (tr st) mode backend \<noteq> [])
                 (if backend = RendererBackend_Vulkan
                  then device_present_modes st ! nat (currentIndex (vulkan_device_combobox st))
                  else default_present_modes)
           \<and> items (vsync_mode_combobox st') =
               map (\<lambda>mode. TranslateVSyncMode (tr st) mode backend)
                 (vsync_mode_combobox_enum_map st')"
proof -
  have rd: "reads_in_bounds backend st"
    using assms(3,4) by (auto simp add: reads_in_bounds_def)
  from Populate_fields [OF assms(1,2) rd]
  obtain st' selected where "PopulateVSyncModeSelection st = Inr (st', selected)"
    and "vsync_mode_combobox_enum_map st' =
        filter (\<lambda>m. TranslateVSyncMode (tr st) m backend \<noteq> []) (source_modes backend st)"
    and "items (vsync_mode_combobox st') =
        map (\<lambda>m. TranslateVSyncMode (tr st) m backend)
          (filter (\<lambda>m. TranslateVSyncMode (tr st) m backend \<noteq> []) (source_modes backend st))"
    by blast
  then show ?thesis
    by (simp add: source_modes_def)
qed

theorem rebuild_offers_named_source_modes_witness:
  "fst (GetCurrentGraphicsBackend example_tab) = RendererBackend_Vulkan
   \<and> (\<exists>st' selected. PopulateVSyncModeSelection example_tab = Inr (st', selected)
        \<and> vsync_mode_combobox_enum_map st' =
            [VK_PRESENT_MODE_IMMEDIATE_KHR, VK_PRESENT_MODE_MAILBOX_KHR, VK_PRESENT_MODE_FIFO_KHR]
        \<and> items (vsync_mode_combobox st') =
            [''Immediate (VSync Off)'', ''Mailbox (Recommended)'', ''FIFO (VSync On)''])
   \<and> fst (GetCurrentGraphicsBackend (select_api example_tab 0)) = RendererBackend_OpenGL
   \<and> (\<exists>st' selected. PopulateVSyncModeSelection (select_api example_tab 0) = Inr (st', selected)
        \<and> vsync_mode_combobox_enum_map st' =
            [VK_PRESENT_MODE_IMMEDIATE_KHR, VK_PRESENT_MODE_FIFO_KHR]
        \<and> items (vsync_mode_combobox st') = [''Off'', ''On''])"
proof -
  have vk: "fst (GetCurrentGraphicsBackend example_tab) = RendererBackend_Vulkan"
    by (simp add: example_tab_backend)
  have gl: "fst (GetCurrentGraphicsBackend (select_api example_tab 0)) = RendererBackend_OpenGL"
    by (simp add: GetCurrentGraphicsBackend_def example_defs model_defs RendererBackend_OpenGL_def)
  have nn: "RendererBackend_Vulkan \<noteq> RendererBackend_Null"
    "RendererBackend_OpenGL \<noteq> RendererBackend_Null"
    by (simp_all add: renderer_backend_defs)
  have v3: "currentIndex (vsync_mode_combobox example_tab) = - 1 \<or>
       (0 \<le> currentIndex (vsync_mode_combobox example_tab) \<and>
        currentIndex (vsync_mode_combobox example_tab)
          < int (length (vsync_mode_combobox_enum_map example_tab)))"
    and v4: "RendererBackend_Vulkan = RendererBackend_Vulkan \<longrightarrow>
       0 \<le> currentIndex (vulkan_device_combobox example_tab) \<and>
       currentIndex (vulkan_device_combobox example_tab)
         < int (length (device_present_modes example_tab))"
    by (simp_all add: example_tab_def)
  have g3: "currentIndex (vsync_mode_combobox (select_api example_tab 0)) = - 1 \<or>
       (0 \<le> currentIndex (vsync_mode_combobox (select_api example_tab 0)) \<and>
        currentIndex (vsync_mode_combobox (select_api example_tab 0))
          < int (length (vsync_mode_combobox_enum_map (select_api example_tab 0))))"
    and g4: "RendererBackend_OpenGL = RendererBackend_Vulkan \<longrightarrow>
       0 \<le> currentIndex (vulkan_device_combobox (select_api example_tab 0)) \<and>
       currentIndex (vulkan_device_combobox (select_api example_tab 0))
         < int (length (device_present_modes (select_api example_tab 0)))"
    by (simp_all add: example_tab_def select_api_def)
  from rebuild_offers_named_source_modes [OF vk nn(1) v3 v4]
  obtain st1 sel1 where r1: "PopulateVSyncModeSelection example_tab = Inr (st1, sel1)"
    and e1: "vsync_mode_combobox_enum_map st1 =
        filter (\<lambda>mode. TranslateVSyncMode (tr example_tab) mode RendererBackend_Vulkan \<noteq> [])
          (if RendererBackend_Vulkan = RendererBackend_Vulkan
           then device_present_modes example_tab !
                  nat (currentIndex (vulkan_device_combobox example_tab))
           else default_present_modes)"
    and i1: "items (vsync_mode_combobox st1) =
        map (\<lambda>mode. TranslateVSyncMode (tr example_tab) mode RendererBackend_Vulkan)
          (vsync_mode_combobox_enum_map st1)"
    by blast
  have e1': "vsync_mode_combobox_enum_map st1 =
      [VK_PRESENT_MODE_IMMEDIATE_KHR, VK_PRESENT_MODE_MAILBOX_KHR, VK_PRESENT_MODE_FIFO_KHR]"
    unfolding e1
    by (simp add: example_tab_def TranslateVSyncMode_def present_mode_defs renderer_backend_defs)
  have i1': "items (vsync_mode_combobox st1) =
      [''Immediate (VSync Off)'', ''Mailbox (Recommended)'', ''FIFO (VSync On)'']"
    unfolding i1 e1'
    by (simp add: example_tab_def TranslateVSyncMode_def present_mode_defs renderer_backend_defs)
  from rebuild_offers_named_source_modes [OF gl nn(2) g3 g4]
  obtain st2 sel2 where r2: "PopulateVSyncModeSelection (select_api example_tab 0) = Inr (st2, sel2)"
    and e2: "vsync_mode_combobox_enum_map st2 =
        filter (\<lambda>mode. TranslateVSyncMode (tr (select_api example_tab 0)) mode
                   RendererBackend_OpenGL \<noteq> [])
          (if RendererBackend_OpenGL = RendererBackend_Vulkan
           then device_present_modes (select_api example_tab 0) !
                  nat (currentIndex (vulkan_device_combobox (select_api example_tab 0)))
           else default_present_modes)"
    and i2: "items (vsync_mode_combobox st2) =
        map (\<lambda>mode. TranslateVSyncMode (tr (select_api example_tab 0)) mode RendererBackend_OpenGL)
          (vsync_mode_combobox_enum_map st2)"
    by blast
  have e2': "vsync_mode_combobox_enum_map st2 =
      [VK_PRESENT_MODE_IMMEDIATE_KHR, VK_PRESENT_MODE_FIFO_KHR]"
    unfolding e2
    by (simp add: example_tab_def select_api_def default_present_modes_def TranslateVSyncMode_def
          present_mode_defs renderer_backend_defs)
  have i2': "items (vsync_mode_combobox st2) = [''Off'', ''On'']"
    unfolding i2 e2'
    by (simp add: example_tab_def select_api_def TranslateVSyncMode_def present_mode_defs
          renderer_backend_defs)
  from vk gl r1 e1' i1' r2 e2' i2' show ?thesis by blast
qed

section \<open>Selection continuity\<close>

text \<open>
  C2. For every backend other than Null, a rebuild whose two unchecked reads stay inside
  their vectors returns, its offered list is the source list restricted to the modes with
  a name, and: if the previously selected mode occurs in that list, the rebuild selects
  the position of that entry (the last one, should the mode occur more than once), and the
  combobox's current index is that position; if it does not occur, the rebuild selects
  nothing (it makes no \<^verbatim>\<open>setCurrentIndex\<close> call, so in particular it
  does not put the index on 0). The previously selected mode is the enum map's entry at
  the combobox's index, or the mode of the persisted setting when the combobox had no
  current item.
\<close>

theorem rebuild_selection_continuity:
  assumes "fst (GetCurrentGraphicsBackend st) = backend"
    and "backend \<noteq> RendererBackend_Null"
    and "currentIndex (vsync_mode_combobox st) = - 1 \<or>
         (0 \<le> currentIndex (vsync_mode_combobox st) \<and>
          currentIndex (vsync_mode_combobox st) < int (length (vsync_mode_combobox_enum_map st)))"
    and "backend = RendererBackend_Vulkan \<longrightarrow>
         0 \<le> currentIndex (vulkan_device_combobox st) \<and>
         currentIndex (vulkan_device_combobox st) < int (length (device_present_modes st))"
  shows "\<exists>st' selected.
           PopulateVSyncModeSelection st = Inr (st', selected)
           \<and> vsync_mode_combobox_enum_map st' =
               filter (\<lambda>mode. TranslateVSyncMode (tr st) mode backend \<noteq> [])
                 (if backend = RendererBackend_Vulkan
                  then device_present_modes st ! nat (currentIndex (vulkan_device_combobox st))
                  else default_present_modes)
           \<and> (previous_mode st \<in> set (vsync_mode_combobox_enum_map st') \<longrightarrow>
                (\<exists>k < length (vsync_mode_combobox_enum_map st').
                   selected = Some (int k) \<and>
                   currentIndex (vsync_mode_combobox st') = int k \<and>
                   vsync_mode_combobox_enum_map st' ! k = previous_mode st \<and>
                   (\<forall>j < length (vsync_mode_combobox_enum_map st').
                      vsync_mode_combobox_enum_map st' ! j = previous_mode st \<longrightarrow> j \<le> k)))
           \<and> (previous_mode st \<notin> set (vsync_mode_combobox_enum_map st') \<longrightarrow> selected = None)"
proof -
  define offered where
    "offered = filter (\<lambda>m. TranslateVSyncMode (tr st) m backend \<noteq> []) (source_modes backend st)"
  have rd: "reads_in_bounds backend st"
    using assms(3,4) by (auto simp add: reads_in_bounds_def)
  from Populate_fields [OF assms(1,2) rd]
  obtain st' selected where r: "PopulateVSyncModeSelection st = Inr (st', selected)"
    and em: "vsync_mode_combobox_enum_map st' = offered"
    and ci: "currentIndex (vsync_mode_combobox st') =
      (case last_position (previous_mode st) offered of
         Some k \<Rightarrow> int k | None \<Rightarrow> if offered = [] then - 1 else 0)"
    and sel: "selected = map_option int (last_position (previous_mode st) offered)"
    unfolding offered_def [symmetric] by blast
  have src: "offered =
      filter (\<lambda>mode. TranslateVSyncMode (tr st) mode backend \<noteq> [])
        (if backend = RendererBackend_Vulkan
         then device_present_modes st ! nat (currentIndex (vulkan_device_combobox st))
         else default_present_modes)"
    by (simp add: offered_def source_modes_def)
  have cont: "(previous_mode st \<in> set offered \<longrightarrow>
        (\<exists>k < length offered. selected = Some (int k) \<and>
           currentIndex (vsync_mode_combobox st') = int k \<and>
           offered ! k = previous_mode st \<and>
           (\<forall>j < length offered. offered ! j = previous_mode st \<longrightarrow> j \<le> k)))
      \<and> (previous_mode st \<notin> set offered \<longrightarrow> selected = None)"
  proof (cases "last_position (previous_mode st) offered")
    case None
    then have "previous_mode st \<notin> set offered" by (simp add: last_position_None)
    with None show ?thesis by (simp add: sel)
  next
    case (Some k)
    from last_position_Some [OF Some]
    have k: "k < length offered" "offered ! k = previous_mode st"
      "\<forall>j. k < j \<and> j < length offered \<longrightarrow> offered ! j \<noteq> previous_mode st" by auto
    have "\<forall>j < length offered. offered ! j = previous_mode st \<longrightarrow> j \<le> k"
      using k(3) by (meson not_le_imp_less)
    moreover have "previous_mode st \<in> set offered"
      using k(1,2) nth_mem by fastforce
    ultimately show ?thesis
      using Some k(1,2) by (auto simp add: sel ci)
  qed
  show ?thesis
    using r em src cont by (intro exI [of _ st'] exI [of _ selected]) simp
qed

theorem rebuild_selection_continuity_witness:
  "previous_mode example_tab = VK_PRESENT_MODE_MAILBOX_KHR
   \<and> (\<exists>st'. PopulateVSyncModeSelection example_tab = Inr (st', Some 1)
        \<and> vsync_mode_combobox_enum_map st' =
            [VK_PRESENT_MODE_IMMEDIATE_KHR, VK_PRESENT_MODE_MAILBOX_KHR, VK_PRESENT_MODE_FIFO_KHR]
        \<and> currentIndex (vsync_mode_combobox st') = 1)
   \<and> previous_mode relaxed_tab = VK_PRESENT_MODE_FIFO_RELAXED_KHR
   \<and> (\<exists>st'. PopulateVSyncModeSelection relaxed_tab = Inr (st', None)
        \<and> vsync_mode_combobox_enum_map st' =
            [VK_PRESENT_MODE_IMMEDIATE_KHR, VK_PRESENT_MODE_MAILBOX_KHR, VK_PRESENT_MODE_FIFO_KHR])
   \<and> previous_mode (select_api example_tab 0) = VK_PRESENT_MODE_MAILBOX_KHR
   \<and> (\<exists>st'. PopulateVSyncModeSelection (select_api example_tab 0) = Inr (st', None)
        \<and> vsync_mode_combobox_enum_map st' =
            [VK_PRESENT_MODE_IMMEDIATE_KHR, VK_PRESENT_MODE_FIFO_KHR])"
proof -
  have vk: "fst (GetCurrentGraphicsBackend example_tab) = RendererBackend_Vulkan"
    by (simp add: example_tab_backend)
  have vr: "fst (GetCurrentGraphicsBackend relaxed_tab) = RendererBackend_Vulkan"
    by (simp add: relaxed_tab_backend)
  have gl: "fst (GetCurrentGraphicsBackend (select_api example_tab 0)) = RendererBackend_OpenGL"
    by (simp add: GetCurrentGraphicsBackend_def example_defs model_defs RendererBackend_OpenGL_def)
  have nn: "RendererBackend_Vulkan \<noteq> RendererBackend_Null"
    "RendererBackend_OpenGL \<noteq> RendererBackend_Null"
    by (simp_all add: renderer_backend_defs)
  have pm: "previous_mode example_tab = VK_PRESENT_MODE_MAILBOX_KHR"
    "previous_mode relaxed_tab = VK_PRESENT_MODE_FIFO_RELAXED_KHR"
    "previous_mode (select_api example_tab 0) = VK_PRESENT_MODE_MAILBOX_KHR"
    by (simp_all add: model_defs example_defs present_mode_defs vsync_mode_defs)
  have v3: "currentIndex (vsync_mode_combobox example_tab) = - 1 \<or>
       (0 \<le> currentIndex (vsync_mode_combobox example_tab) \<and>
        currentIndex (vsync_mode_combobox example_tab)
          < int (length (vsync_mode_combobox_enum_map example_tab)))"
    and v4: "RendererBackend_Vulkan = RendererBackend_Vulkan \<longrightarrow>
       0 \<le> currentIndex (vulkan_device_combobox example_tab) \<and>
       currentIndex (vulkan_device_combobox example_tab)
         < int (length (device_present_modes example_tab))"
    by (simp_all add: example_tab_def)
  have r3: "currentIndex (vsync_mode_combobox relaxed_tab) = - 1 \<or>
       (0 \<le> currentIndex (vsync_mode_combobox relaxed_tab) \<and>
        currentIndex (vsync_mode_combobox relaxed_tab)
          < int (length (vsync_mode_combobox_enum_map relaxed_tab)))"
    and r4: "RendererBackend_Vulkan = RendererBackend_Vulkan \<longrightarrow>
       0 \<le> currentIndex (vulkan_device_combobox relaxed_tab) \<and>
       currentIndex (vulkan_device_combobox relaxed_tab)
         < int (length (device_present_modes relaxed_tab))"
    by (simp_all add: relaxed_tab_def example_tab_def)
  have g3: "currentIndex (vsync_mode_combobox (select_api example_tab 0)) = - 1 \<or>
       (0 \<le> currentIndex (vsync_mode_combobox (select_api example_tab 0)) \<and>
        currentIndex (vsync_mode_combobox (select_api example_tab 0))
          < int (length (vsync_mode_combobox_enum_map (select_api example_tab 0))))"
    and g4: "RendererBackend_OpenGL = RendererBackend_Vulkan \<longrightarrow>
       0 \<le> currentIndex (vulkan_device_combobox (select_api example_tab 0)) \<and>
       currentIndex (vulkan_device_combobox (select_api example_tab 0))
         < int (length (device_present_modes (select_api example_tab 0)))"
    by (simp_all add: example_tab_def select_api_def)
  have vk_list: "filter (\<lambda>mode. TranslateVSyncMode (\<lambda>s. s) mode RendererBackend_Vulkan \<noteq> [])
      [VK_PRESENT_MODE_IMMEDIATE_KHR, VK_PRESENT_MODE_MAILBOX_KHR, VK_PRESENT_MODE_FIFO_KHR] =
      [VK_PRESENT_MODE_IMMEDIATE_KHR, VK_PRESENT_MODE_MAILBOX_KHR, VK_PRESENT_MODE_FIFO_KHR]"
    by (simp add: TranslateVSyncMode_def present_mode_defs renderer_backend_defs)
  have gl_list: "filter (\<lambda>mode. TranslateVSyncMode (\<lambda>s. s) mode RendererBackend_OpenGL \<noteq> [])
      default_present_modes = [VK_PRESENT_MODE_IMMEDIATE_KHR, VK_PRESENT_MODE_FIFO_KHR]"
    by (simp add: default_present_modes_def TranslateVSyncMode_def present_mode_defs
          renderer_backend_defs)
  \<comment> \<open>Mailbox, the persisted setting, is found at position 1\<close>
  from rebuild_selection_continuity [OF vk nn(1) v3 v4]
  obtain st1 sel1 where a1: "PopulateVSyncModeSelection example_tab = Inr (st1, sel1)"
    and e1: "vsync_mode_combobox_enum_map st1 =
      [VK_PRESENT_MODE_IMMEDIATE_KHR, VK_PRESENT_MODE_MAILBOX_KHR, VK_PRESENT_MODE_FIFO_KHR]"
    and f1: "previous_mode example_tab \<in> set (vsync_mode_combobox_enum_map st1) \<longrightarrow>
        (\<exists>k < length (vsync_mode_combobox_enum_map st1).
           sel1 = Some (int k) \<and> currentIndex (vsync_mode_combobox st1) = int k \<and>
           vsync_mode_combobox_enum_map st1 ! k = previous_mode example_tab \<and>
           (\<forall>j < length (vsync_mode_combobox_enum_map st1).
              vsync_mode_combobox_enum_map st1 ! j = previous_mode example_tab \<longrightarrow> j \<le> k))"
    using vk_list by (auto simp add: example_tab_def)
  from f1 obtain k where k: "k < 3" "sel1 = Some (int k)"
    "currentIndex (vsync_mode_combobox st1) = int k"
    "[VK_PRESENT_MODE_IMMEDIATE_KHR, VK_PRESENT_MODE_MAILBOX_KHR, VK_PRESENT_MODE_FIFO_KHR] ! k =
       VK_PRESENT_MODE_MAILBOX_KHR"
    by (auto simp add: pm e1)
  from k(1) have "k = 0 \<or> k = 1 \<or> k = 2" by arith
  with k(4) have "k = 1"
    by (auto simp add: present_mode_defs)
  with k a1 e1 have a: "\<exists>st'. PopulateVSyncModeSelection example_tab = Inr (st', Some 1)
        \<and> vsync_mode_combobox_enum_map st' =
            [VK_PRESENT_MODE_IMMEDIATE_KHR, VK_PRESENT_MODE_MAILBOX_KHR, VK_PRESENT_MODE_FIFO_KHR]
        \<and> currentIndex (vsync_mode_combobox st') = 1"
    by auto
  \<comment> \<open>FIFO Relaxed, which the device does not offer, is not found\<close>
  from rebuild_selection_continuity [OF vr nn(1) r3 r4]
  obtain st2 sel2 where a2: "PopulateVSyncModeSelection relaxed_tab = Inr (st2, sel2)"
    and e2: "vsync_mode_combobox_enum_map st2 =
      [VK_PRESENT_MODE_IMMEDIATE_KHR, VK_PRESENT_MODE_MAILBOX_KHR, VK_PRESENT_MODE_FIFO_KHR]"
    and f2: "previous_mode relaxed_tab \<notin> set (vsync_mode_combobox_enum_map st2) \<longrightarrow> sel2 = None"
    using vk_list by (auto simp add: relaxed_tab_def example_tab_def)
  from f2 have "sel2 = None"
    by (simp add: pm e2 present_mode_defs)
  with a2 e2 have b: "\<exists>st'. PopulateVSyncModeSelection relaxed_tab = Inr (st', None)
        \<and> vsync_mode_combobox_enum_map st' =
            [VK_PRESENT_MODE_IMMEDIATE_KHR, VK_PRESENT_MODE_MAILBOX_KHR, VK_PRESENT_MODE_FIFO_KHR]"
    by auto
  \<comment> \<open>Mailbox is not offered under OpenGL\<close>
  from rebuild_selection_continuity [OF gl nn(2) g3 g4]
  obtain st3 sel3 where a3: "PopulateVSyncModeSelection (select_api example_tab 0) = Inr (st3, sel3)"
    and e3: "vsync_mode_combobox_enum_map st3 =
      [VK_PRESENT_MODE_IMMEDIATE_KHR, VK_PRESENT_MODE_FIFO_KHR]"
    and f3: "previous_mode (select_api example_tab 0) \<notin> set (vsync_mode_combobox_enum_map st3)
        \<longrightarrow> sel3 = None"
    using gl_list by (auto simp add: example_tab_def select_api_def renderer_backend_defs)
  from f3 have "sel3 = None"
    by (simp add: pm e3 present_mode_defs)
  with a3 e3 have c: "\<exists>st'. PopulateVSyncModeSelection (select_api example_tab 0) = Inr (st', None)
        \<and> vsync_mode_combobox_enum_map st' =
            [VK_PRESENT_MODE_IMMEDIATE_KHR, VK_PRESENT_MODE_FIFO_KHR]"
    by auto
  from pm a b c show ?thesis by blast
qed

text \<open>
  What the combobox shows when the rebuild selected nothing is the widget's own default:
  the first entry if there is one, no entry otherwise.
\<close>

lemma rebuild_without_match_widget_default:
  assumes "GetCurrentGraphicsBackend st = (backend, st0)"
    and "backend \<noteq> RendererBackend_Null"
    and "PopulateVSyncModeSelection st = Inr (st', selected)"
    and "previous_mode st \<notin> set (vsync_mode_combobox_enum_map st')"
  shows "currentIndex (vsync_mode_combobox st') =
           (if vsync_mode_combobox_enum_map st' = [] then - 1 else 0)"
proof -
  have g: "fst (GetCurrentGraphicsBackend st) = backend"
    using assms(1) by simp
  have rd: "reads_in_bounds backend st"
    using assms(1-3) by (rule Populate_Inr_reads)
  define offered where
    "offered = filter (\<lambda>m. TranslateVSyncMode (tr st) m backend \<noteq> []) (source_modes backend st)"
  from Populate_fields [OF g assms(2) rd] assms(3)
  have em: "vsync_mode_combobox_enum_map st' = offered"
    and ci: "currentIndex (vsync_mode_combobox st') =
      (case last_position (previous_mode st) offered of
         Some k \<Rightarrow> int k | None \<Rightarrow> if offered = [] then - 1 else 0)"
    by (auto simp add: offered_def)
  from assms(4) have "last_position (previous_mode st) offered = None"
    by (simp add: em last_position_None)
  then show ?thesis by (simp add: ci em)
qed

section \<open>The Null backend\<close>

text \<open>
  C3, as the code has it. For the Null backend a rebuild disables the VSync combobox and
  does nothing else: the offered list, the item texts and the current index stay exactly as
  they were, whatever the device list holds. The offered list is therefore empty only if it
  was empty before.
\<close>

theorem null_backend_only_disables:
  assumes "GetCurrentGraphicsBackend st = (RendererBackend_Null, st0)"
  shows "\<exists>st'. PopulateVSyncModeSelection st = Inr (st', None)
           \<and> st' = st0\<lparr>vsync_mode_combobox := (vsync_mode_combobox st0)\<lparr>enabled := False\<rparr>\<rparr>
           \<and> enabled (vsync_mode_combobox st') = False
           \<and> vsync_mode_combobox_enum_map st' = vsync_mode_combobox_enum_map st
           \<and> items (vsync_mode_combobox st') = items (vsync_mode_combobox st)
           \<and> currentIndex (vsync_mode_combobox st') = currentIndex (vsync_mode_combobox st)"
  using GetCurrentGraphicsBackend_frame [OF assms]
  by (simp add: PopulateVSyncModeSelection_def assms setEnabled_def)

theorem null_backend_only_disables_witness:
  "GetCurrentGraphicsBackend (select_api example_tab 2) =
     (RendererBackend_Null, select_api example_tab 2)
   \<and> PopulateVSyncModeSelection (select_api example_tab 2) =
       Inr ((select_api example_tab 2)
              \<lparr>vsync_mode_combobox := \<lparr>items = [], currentIndex = - 1, enabled = False\<rparr>\<rparr>, None)"
  using null_backend_only_disables [OF fresh_null_backend]
  by (simp add: fresh_null_backend) (simp add: example_defs model_defs)

text \<open>
  C3 as stated fails: on a tab populated for Vulkan, the rebuild after the user chose Null
  leaves the three offered modes in place.
\<close>

theorem null_backend_keeps_offered_list:
  "GetCurrentGraphicsBackend null_tab = (RendererBackend_Null, null_tab)
   \<and> PopulateVSyncModeSelection null_tab =
       Inr (null_tab\<lparr>vsync_mode_combobox := (vsync_mode_combobox null_tab)\<lparr>enabled := False\<rparr>\<rparr>, None)
   \<and> vsync_mode_combobox_enum_map
        (null_tab\<lparr>vsync_mode_combobox := (vsync_mode_combobox null_tab)\<lparr>enabled := False\<rparr>\<rparr>) =
       [VK_PRESENT_MODE_IMMEDIATE_KHR, VK_PRESENT_MODE_MAILBOX_KHR, VK_PRESENT_MODE_FIFO_KHR]
   \<and> vsync_mode_combobox_enum_map
        (null_tab\<lparr>vsync_mode_combobox := (vsync_mode_combobox null_tab)\<lparr>enabled := False\<rparr>\<rparr>) \<noteq> []"
  by (simp add: null_tab_backend PopulateVSyncModeSelection_def setEnabled_def)
     (simp add: example_defs model_defs)

section \<open>Round trip and default branch\<close>

text \<open>
  C4. For each of the four defined VSyncMode values, converting the setting to a present
  mode with VSyncSettingToMode and back with PresentModeToSetting gives the setting
  again.
\<close>

theorem setting_mode_round_trip:
  "\<forall>s \<in> {VSyncMode_Immediate, VSyncMode_Mailbox, VSyncMode_FIFO, VSyncMode_FIFORelaxed}.
     PresentModeToSetting (VSyncSettingToMode s) = s"
  by (simp add: PresentModeToSetting_def VSyncSettingToMode_def present_mode_defs vsync_mode_defs)

theorem setting_mode_round_trip_witness:
  "VSyncMode_Mailbox \<in> {VSyncMode_Immediate, VSyncMode_Mailbox, VSyncMode_FIFO, VSyncMode_FIFORelaxed}
   \<and> VSyncSettingToMode VSyncMode_Mailbox = VK_PRESENT_MODE_MAILBOX_KHR
   \<and> PresentModeToSetting (VSyncSettingToMode VSyncMode_Mailbox) = VSyncMode_Mailbox"
  using setting_mode_round_trip
  by (simp add: VSyncSettingToMode_def vsync_mode_defs)

text \<open>
  C5. Both conversions return a value on every input (neither has a failing path: every
  branch of either switch returns an enumerator), and PresentModeToSetting sends every
  present mode other than the four mapped ones to the FIFO setting.
\<close>

theorem conversions_total_default_fifo:
  "(m \<notin> {VK_PRESENT_MODE_IMMEDIATE_KHR, VK_PRESENT_MODE_MAILBOX_KHR,
           VK_PRESENT_MODE_FIFO_KHR, VK_PRESENT_MODE_FIFO_RELAXED_KHR}
      \<longrightarrow> PresentModeToSetting m = VSyncMode_FIFO)
   \<and> PresentModeToSetting m \<in>
        {VSyncMode_Immediate, VSyncMode_Mailbox, VSyncMode_FIFO, VSyncMode_FIFORelaxed}
   \<and> VSyncSettingToMode s \<in>
        {VK_PRESENT_MODE_IMMEDIATE_KHR, VK_PRESENT_MODE_MAILBOX_KHR,
         VK_PRESENT_MODE_FIFO_KHR, VK_PRESENT_MODE_FIFO_RELAXED_KHR}"
  by (simp add: PresentModeToSetting_def VSyncSettingToMode_def)

theorem conversions_total_default_fifo_witness:
  "VK_PRESENT_MODE_SHARED_DEMAND_REFRESH_KHR \<notin>
      {VK_PRESENT_MODE_IMMEDIATE_KHR, VK_PRESENT_MODE_MAILBOX_KHR,
       VK_PRESENT_MODE_FIFO_KHR, VK_PRESENT_MODE_FIFO_RELAXED_KHR}
   \<and> PresentModeToSetting VK_PRESENT_MODE_SHARED_DEMAND_REFRESH_KHR = VSyncMode_FIFO"
  using conversions_total_default_fifo [of VK_PRESENT_MODE_SHARED_DEMAND_REFRESH_KHR]
  by (simp add: present_mode_defs)

section \<open>The unchecked read of the device list\<close>

text \<open>
  C6. With the Vulkan backend and no Vulkan device, the device combobox has no current
  item (index \<open>-1\<close>) and the device list is empty; the rebuild subscripts the
  device list with that index, outside its bounds.
\<close>

theorem rebuild_without_device_reads_out_of_bounds:
  "GetCurrentGraphicsBackend no_device_tab = (RendererBackend_Vulkan, no_device_tab)
   \<and> currentIndex (vulkan_device_combobox no_device_tab) = - 1
   \<and> device_present_modes no_device_tab = []
   \<and> PopulateVSyncModeSelection no_device_tab = Inl OutOfBoundsRead"
  using Populate_out_of_bounds [OF no_device_tab_backend]
  by (simp add: no_device_tab_backend)
     (simp add: example_defs model_defs renderer_backend_defs)

section \<open>The commit\<close>

text \<open>
  C7. In the global configuration, with a selected entry of the VSync combobox,
  ApplyConfiguration stores the PresentModeToSetting conversion of the selected present
  mode in the persisted VSync setting (and is otherwise the run of the apply functions).
  In a per-profile configuration it is the run of the apply functions alone: the VSync
  commit is skipped.
\<close>

theorem commit_only_in_global_mode:
  "(configuring_global st \<and> 0 \<le> currentIndex (vsync_mode_combobox st) \<and>
      currentIndex (vsync_mode_combobox st) < int (length (vsync_mode_combobox_enum_map st)) \<longrightarrow>
      (\<exists>st'. ApplyConfiguration st = Inr st' \<and>
         GetValue (values_vsync_mode (settings_values st')) =
           PresentModeToSetting
             (vsync_mode_combobox_enum_map st ! nat (currentIndex (vsync_mode_combobox st))) \<and>
         st' = (run_apply_funcs st)
                 \<lparr>settings_values := (settings_values (run_apply_funcs st))
                    \<lparr>values_vsync_mode :=
                       SetValue (values_vsync_mode (settings_values (run_apply_funcs st)))
                         (PresentModeToSetting
                            (vsync_mode_combobox_enum_map st !
                               nat (currentIndex (vsync_mode_combobox st))))\<rparr>\<rparr>))
   \<and> (\<not> configuring_global st \<longrightarrow> ApplyConfiguration st = Inr (run_apply_funcs st))"
  by (simp add: ApplyConfiguration_def run_apply_funcs_def subscript_def Let_def GetValue_SetValue)

theorem commit_only_in_global_mode_witness:
  "configuring_global fifo_chosen_tab
   \<and> currentIndex (vsync_mode_combobox fifo_chosen_tab) = 2
   \<and> GetValue (values_vsync_mode (settings_values fifo_chosen_tab)) = VSyncMode_Mailbox
   \<and> ApplyConfiguration fifo_chosen_tab =
       Inr (fifo_chosen_tab
              \<lparr>settings_values := (settings_values fifo_chosen_tab)
                 \<lparr>values_vsync_mode :=
                    \<lparr>global_value = VSyncMode_FIFO, custom_value = VSyncMode_FIFO,
                     use_global = True\<rparr>\<rparr>\<rparr>)
   \<and> \<not> configuring_global per_profile_fifo_tab
   \<and> currentIndex (vsync_mode_combobox per_profile_fifo_tab) = 2
   \<and> ApplyConfiguration per_profile_fifo_tab = Inr per_profile_fifo_tab"
  using commit_only_in_global_mode [of fifo_chosen_tab]
    commit_only_in_global_mode [of per_profile_fifo_tab]
  by (simp add: fifo_chosen_tab_def per_profile_fifo_tab_def example_defs run_apply_funcs_def
        SetValue_def GetValue_def PresentModeToSetting_def present_mode_defs vsync_mode_defs)

section \<open>What a rebuild does to the settings\<close>

text \<open>
  C8, as the code has it. A rebuild that returns never changes the value of a setting: the
  VSync mode, device and shader backend settings are untouched, and so are the global and
  the per-profile value of the renderer backend. In the global configuration the settings
  store is unchanged. In a per-profile configuration the query of the current backend
  stores the use-global flag of the renderer backend setting (true exactly when the API
  combobox is on the entry for the global value), and that is the only change.
\<close>

theorem rebuild_settings_frame:
  assumes "PopulateVSyncModeSelection st = Inr (st', selected)"
  shows "values_vsync_mode (settings_values st') = values_vsync_mode (settings_values st)
     \<and> values_vulkan_device (settings_values st') = values_vulkan_device (settings_values st)
     \<and> values_shader_backend (settings_values st') = values_shader_backend (settings_values st)
     \<and> global_value (values_renderer_backend (settings_values st')) =
         global_value (values_renderer_backend (settings_values st))
     \<and> custom_value (values_renderer_backend (settings_values st')) =
         custom_value (values_renderer_backend (settings_values st))
     \<and> (configuring_global st \<longrightarrow> settings_values st' = settings_values st)
     \<and> (\<not> configuring_global st \<longrightarrow>
          settings_values st' =
            (settings_values st)
              \<lparr>values_renderer_backend := (values_renderer_backend (settings_values st))
                 \<lparr>use_global := (currentIndex (api_combobox st) = USE_GLOBAL_INDEX)\<rparr>\<rparr>)"
  unfolding Populate_settings [OF assms] GetCurrentGraphicsBackend_state
  by simp

theorem rebuild_settings_frame_witness:
  "PopulateVSyncModeSelection example_tab = Inr (populated_tab, Some 1)
   \<and> configuring_global example_tab
   \<and> settings_values populated_tab = settings_values example_tab
   \<and> \<not> configuring_global per_profile_tab
   \<and> currentIndex (api_combobox per_profile_tab) = USE_GLOBAL_INDEX
   \<and> PopulateVSyncModeSelection per_profile_tab =
       Inr (per_profile_tab
              \<lparr>settings_values := (settings_values per_profile_tab)
                 \<lparr>values_renderer_backend := (values_renderer_backend (settings_values per_profile_tab))
                    \<lparr>use_global := True\<rparr>\<rparr>\<rparr>, Some 1)"
  using rebuild_settings_frame [OF example_tab_rebuild]
    rebuild_settings_frame [OF per_profile_tab_rebuild]
  by (simp add: example_tab_rebuild per_profile_tab_rebuild)
     (simp_all add: example_defs USE_GLOBAL_INDEX_def)


text \<open>
  C8 as stated fails: in a per-profile configuration with the API combobox on the entry
  for the global value, the rebuild turns the use-global flag of the renderer backend
  setting from false to true.
\<close>

theorem rebuild_sets_use_global_flag:
  "\<not> configuring_global per_profile_tab
   \<and> PopulateVSyncModeSelection per_profile_tab =
       Inr (per_profile_tab
              \<lparr>settings_values := (settings_values per_profile_tab)
                 \<lparr>values_renderer_backend := (values_renderer_backend (settings_values per_profile_tab))
                    \<lparr>use_global := True\<rparr>\<rparr>\<rparr>, Some 1)
   \<and> use_global (values_renderer_backend (settings_values per_profile_tab)) = False
   \<and> settings_values
        (per_profile_tab
              \<lparr>settings_values := (settings_values per_profile_tab)
                 \<lparr>values_renderer_backend := (values_renderer_backend (settings_values per_profile_tab))
                    \<lparr>use_global := True\<rparr>\<rparr>\<rparr>) \<noteq> settings_values per_profile_tab"
  by (simp add: per_profile_tab_rebuild) (simp add: example_defs)

section \<open>The round trip of the backend\<close>

text \<open>
  C9, as the code has it. Take a state under the Vulkan backend that a rebuild leaves as it
  is (its offered list and selection are the ones the rebuild produces), and let the user
  choose the OpenGL entry of the API combobox and then the Vulkan entry again, with a
  rebuild after each choice and the device selection untouched. Both rebuilds return, and
  the offered list and the item texts are the ones before the round trip. The current
  index and the selection of the last rebuild are the ones before the round trip provided
  the mode selected before it is one the OpenGL backend offers as well: Immediate or FIFO,
  with a non-empty name there.
\<close>

theorem backend_round_trip_reproduces:
  assumes api: "select_api st vk = st"
    and vk: "fst (GetCurrentGraphicsBackend st) = RendererBackend_Vulkan"
    and gl: "fst (GetCurrentGraphicsBackend (select_api st gl)) = RendererBackend_OpenGL"
    and fp: "PopulateVSyncModeSelection st = Inr (st, selected)"
  shows "\<exists>st3 selected3. backend_round_trip gl vk st = Inr (st3, selected3)
      \<and> vsync_mode_combobox_enum_map st3 = vsync_mode_combobox_enum_map st
      \<and> items (vsync_mode_combobox st3) = items (vsync_mode_combobox st)
      \<and> (previous_mode st \<in> set default_present_modes \<and>
          TranslateVSyncMode (tr st) (previous_mode st) RendererBackend_OpenGL \<noteq> [] \<longrightarrow>
          currentIndex (vsync_mode_combobox st3) = currentIndex (vsync_mode_combobox st) \<and>
          selected3 = selected)"
proof -
  define L where
    "L = filter (\<lambda>m. TranslateVSyncMode (tr st) m RendererBackend_Vulkan \<noteq> [])
           (source_modes RendererBackend_Vulkan st)"
  define L2 where
    "L2 = filter (\<lambda>m. TranslateVSyncMode (tr st) m RendererBackend_OpenGL \<noteq> []) default_present_modes"
  define m where "m = previous_mode st"
  have nn: "RendererBackend_Vulkan \<noteq> RendererBackend_Null"
    and nnA: "RendererBackend_OpenGL \<noteq> RendererBackend_Null"
    and ne: "RendererBackend_OpenGL \<noteq> RendererBackend_Vulkan"
    by (simp_all add: renderer_backend_defs)
  obtain st0 where g1: "GetCurrentGraphicsBackend st = (RendererBackend_Vulkan, st0)"
    using vk by (cases "GetCurrentGraphicsBackend st") auto
  have rd1: "reads_in_bounds RendererBackend_Vulkan st"
    using g1 nn fp by (rule Populate_Inr_reads)
  from Populate_fields [OF vk nn rd1] fp
  have e1: "vsync_mode_combobox_enum_map st = L"
    and i1: "items (vsync_mode_combobox st) =
               map (\<lambda>m. TranslateVSyncMode (tr st) m RendererBackend_Vulkan) L"
    and c1: "currentIndex (vsync_mode_combobox st) =
               (case last_position m L of Some k \<Rightarrow> int k | None \<Rightarrow> if L = [] then - 1 else 0)"
    and s1: "selected = map_option int (last_position m L)"
    by (auto simp add: L_def m_def)
  \<comment> \<open>the rebuild under the fixed-function backend\<close>
  define stg where "stg = select_api st gl"
  have fg: "vsync_mode_combobox stg = vsync_mode_combobox st"
    "vsync_mode_combobox_enum_map stg = vsync_mode_combobox_enum_map st"
    "tr stg = tr st" "settings_values stg = settings_values st"
    "vulkan_device_combobox stg = vulkan_device_combobox st"
    "device_present_modes stg = device_present_modes st"
    "configuring_global stg = configuring_global st"
    "api_combobox stg = setCurrentIndex (api_combobox st) gl"
    by (simp_all add: stg_def select_api_def)
  have glg: "fst (GetCurrentGraphicsBackend stg) = RendererBackend_OpenGL"
    using gl by (simp add: stg_def)
  have rdA: "reads_in_bounds RendererBackend_OpenGL stg"
    using rd1 ne by (simp add: reads_in_bounds_def fg)
  have pmA: "previous_mode stg = m"
    by (simp add: previous_mode_def fg m_def)
  have srcA: "source_modes RendererBackend_OpenGL stg = default_present_modes"
    using ne by (simp add: source_modes_def)
  from Populate_fields [OF glg nnA rdA]
  obtain st2 sel2 where A: "PopulateVSyncModeSelection stg = Inr (st2, sel2)"
    and e2: "vsync_mode_combobox_enum_map st2 = L2"
    and c2: "currentIndex (vsync_mode_combobox st2) =
               (case last_position m L2 of Some k \<Rightarrow> int k | None \<Rightarrow> if L2 = [] then - 1 else 0)"
    and f2: "api_combobox st2 = api_combobox stg"
      "vulkan_device_combobox st2 = vulkan_device_combobox stg"
      "device_present_modes st2 = device_present_modes stg"
      "tr st2 = tr stg"
      "configuring_global st2 = configuring_global stg"
      "values_vsync_mode (settings_values st2) = values_vsync_mode (settings_values stg)"
      "global_value (values_renderer_backend (settings_values st2)) =
         global_value (values_renderer_backend (settings_values stg))"
    unfolding pmA srcA fg L2_def [symmetric] by blast
  \<comment> \<open>back to the explicit-device backend\<close>
  define stv where "stv = select_api st2 vk"
  have "api_combobox (select_api st vk) = api_combobox st"
    using api by simp
  then have av: "setCurrentIndex (api_combobox st) vk = api_combobox st"
    by (simp add: select_api_def)
  have "setCurrentIndex (setCurrentIndex (api_combobox st) gl) vk = setCurrentIndex (api_combobox st) vk"
    by (simp add: setCurrentIndex_def)
  then have apv: "api_combobox stv = api_combobox st"
    by (simp add: stv_def select_api_def f2 fg av)
  have fv: "vsync_mode_combobox stv = vsync_mode_combobox st2"
    "vsync_mode_combobox_enum_map stv = L2"
    "tr stv = tr st"
    "vulkan_device_combobox stv = vulkan_device_combobox st"
    "device_present_modes stv = device_present_modes st"
    "configuring_global stv = configuring_global st"
    "values_vsync_mode (settings_values stv) = values_vsync_mode (settings_values st)"
    "global_value (values_renderer_backend (settings_values stv)) =
       global_value (values_renderer_backend (settings_values st))"
    by (simp_all add: stv_def select_api_def f2 fg e2)
  have bk: "fst (GetCurrentGraphicsBackend stv) = RendererBackend_Vulkan"
    using backend_cong [of stv st] vk by (simp add: fv apv)
  have rdB: "reads_in_bounds RendererBackend_Vulkan stv"
    using rd1 last_position_range [where x = m and xs = L2]
    by (simp add: reads_in_bounds_def fv c2)
  have srcB: "source_modes RendererBackend_Vulkan stv = source_modes RendererBackend_Vulkan st"
    by (simp add: source_modes_def fv)
  from Populate_fields [OF bk nn rdB]
  obtain st3 sel3 where B: "PopulateVSyncModeSelection stv = Inr (st3, sel3)"
    and e3: "vsync_mode_combobox_enum_map st3 = L"
    and i3: "items (vsync_mode_combobox st3) =
               map (\<lambda>m. TranslateVSyncMode (tr st) m RendererBackend_Vulkan) L"
    and c3: "currentIndex (vsync_mode_combobox st3) =
               (case last_position (previous_mode stv) L of
                  Some k \<Rightarrow> int k | None \<Rightarrow> if L = [] then - 1 else 0)"
    and s3: "sel3 = map_option int (last_position (previous_mode stv) L)"
    unfolding srcB fv L_def [symmetric] by blast
  have rt: "backend_round_trip gl vk st = Inr (st3, sel3)"
    using A B by (simp add: backend_round_trip_def stg_def stv_def)
  have keep: "currentIndex (vsync_mode_combobox st3) = currentIndex (vsync_mode_combobox st) \<and>
      sel3 = selected"
    if off: "m \<in> set default_present_modes"
      "TranslateVSyncMode (tr st) m RendererBackend_OpenGL \<noteq> []"
  proof -
    from off have "m \<in> set L2" by (simp add: L2_def)
    then obtain k2 where k2: "last_position m L2 = Some k2"
      using last_position_None [of m L2] by (cases "last_position m L2") auto
    from last_position_Some [OF k2] have "k2 < length L2" "L2 ! k2 = m" by auto
    then have "previous_mode stv = m"
      by (simp add: previous_mode_def fv c2 k2)
    then show ?thesis by (simp add: c3 s3 c1 s1)
  qed
  show ?thesis
    using rt e1 e3 i1 i3 keep by (auto simp add: m_def)
qed


theorem backend_round_trip_reproduces_witness:
  "select_api fifo_chosen_tab 1 = fifo_chosen_tab
   \<and> fst (GetCurrentGraphicsBackend fifo_chosen_tab) = RendererBackend_Vulkan
   \<and> fst (GetCurrentGraphicsBackend (select_api fifo_chosen_tab 0)) = RendererBackend_OpenGL
   \<and> PopulateVSyncModeSelection fifo_chosen_tab = Inr (fifo_chosen_tab, Some 2)
   \<and> previous_mode fifo_chosen_tab = VK_PRESENT_MODE_FIFO_KHR
   \<and> VK_PRESENT_MODE_FIFO_KHR \<in> set default_present_modes
   \<and> TranslateVSyncMode (tr fifo_chosen_tab) VK_PRESENT_MODE_FIFO_KHR RendererBackend_OpenGL = ''On''
   \<and> (\<exists>st3. backend_round_trip 0 1 fifo_chosen_tab = Inr (st3, Some 2)
          \<and> vsync_mode_combobox_enum_map st3 =
              [VK_PRESENT_MODE_IMMEDIATE_KHR, VK_PRESENT_MODE_MAILBOX_KHR, VK_PRESENT_MODE_FIFO_KHR]
          \<and> items (vsync_mode_combobox st3) = vulkan_names
          \<and> currentIndex (vsync_mode_combobox st3) = 2)"
proof -
  have vk: "fst (GetCurrentGraphicsBackend fifo_chosen_tab) = RendererBackend_Vulkan"
    by (simp add: fifo_chosen_tab_backend)
  have pm: "previous_mode fifo_chosen_tab = VK_PRESENT_MODE_FIFO_KHR"
    "VK_PRESENT_MODE_FIFO_KHR \<in> set default_present_modes"
    "TranslateVSyncMode (tr fifo_chosen_tab) VK_PRESENT_MODE_FIFO_KHR RendererBackend_OpenGL = ''On''"
    by (simp_all add: round_trip_defs example_defs model_defs present_mode_defs renderer_backend_defs)
  have fields: "vsync_mode_combobox_enum_map fifo_chosen_tab =
      [VK_PRESENT_MODE_IMMEDIATE_KHR, VK_PRESENT_MODE_MAILBOX_KHR, VK_PRESENT_MODE_FIFO_KHR]"
    "items (vsync_mode_combobox fifo_chosen_tab) = vulkan_names"
    "currentIndex (vsync_mode_combobox fifo_chosen_tab) = 2"
    by (simp_all add: fifo_chosen_tab_def populated_tab_def)
  from backend_round_trip_reproduces
         [OF fifo_chosen_tab_api vk fifo_chosen_tab_opengl_backend fifo_chosen_tab_rebuild]
  obtain st3 selected3 where "backend_round_trip 0 1 fifo_chosen_tab = Inr (st3, selected3)"
    "vsync_mode_combobox_enum_map st3 = vsync_mode_combobox_enum_map fifo_chosen_tab"
    "items (vsync_mode_combobox st3) = items (vsync_mode_combobox fifo_chosen_tab)"
    "currentIndex (vsync_mode_combobox st3) = currentIndex (vsync_mode_combobox fifo_chosen_tab)"
    "selected3 = Some 2"
    using pm by auto
  then show ?thesis
    using fifo_chosen_tab_api vk fifo_chosen_tab_opengl_backend fifo_chosen_tab_rebuild pm fields
    by auto
qed


text \<open>
  C9 as stated fails: with Mailbox selected under Vulkan (index 1), the rebuild for OpenGL
  offers Immediate and FIFO only and finds no entry to select, and the rebuild after the
  way back selects Immediate (index 0).
\<close>

theorem backend_round_trip_loses_mailbox:
  "select_api chosen_mailbox_tab 1 = chosen_mailbox_tab
   \<and> fst (GetCurrentGraphicsBackend chosen_mailbox_tab) = RendererBackend_Vulkan
   \<and> fst (GetCurrentGraphicsBackend (select_api chosen_mailbox_tab 0)) = RendererBackend_OpenGL
   \<and> PopulateVSyncModeSelection chosen_mailbox_tab = Inr (chosen_mailbox_tab, Some 1)
   \<and> currentIndex (vsync_mode_combobox chosen_mailbox_tab) = 1
   \<and> backend_round_trip 0 1 chosen_mailbox_tab =
       Inr (chosen_mailbox_tab
              \<lparr>vsync_mode_combobox := (vsync_mode_combobox chosen_mailbox_tab)\<lparr>currentIndex := 0\<rparr>\<rparr>,
            Some 0)"
  by (simp add: backend_round_trip_def chosen_mailbox_tab_backend chosen_mailbox_tab_rebuild
        chosen_mailbox_tab_opengl_backend chosen_mailbox_tab_opengl_rebuild
        chosen_mailbox_tab_back_rebuild)
     (simp add: round_trip_defs example_defs model_defs)

section \<open>The device and shader backend selections\<close>

text \<open>
  C10, as the code has it. UpdateDeviceSelection and UpdateShaderBackendSelection change
  nothing at all when called with \<open>-1\<close>. They leave the stored selection as it
  is when the current backend is not Vulkan (for the device) or not OpenGL (for the shader
  backend), and store the index otherwise. Apart from the stored selection they leave
  every member of the tab as it is, and the settings differ at most in the use-global flag
  of the renderer backend setting, which the query of the current backend stores in a
  per-profile configuration; in the global configuration the settings are unchanged.
\<close>

theorem selection_updates_frame:
  "UpdateDeviceSelection st (- 1) = st
   \<and> UpdateShaderBackendSelection st (- 1) = st
   \<and> (fst (GetCurrentGraphicsBackend st) \<noteq> RendererBackend_Vulkan \<longrightarrow>
        vulkan_device (UpdateDeviceSelection st device) = vulkan_device st)
   \<and> (fst (GetCurrentGraphicsBackend st) \<noteq> RendererBackend_OpenGL \<longrightarrow>
        shader_backend (UpdateShaderBackendSelection st backend) = shader_backend st)
   \<and> (device \<noteq> - 1 \<and> fst (GetCurrentGraphicsBackend st) = RendererBackend_Vulkan \<longrightarrow>
        vulkan_device (UpdateDeviceSelection st device) = word_of_int device)
   \<and> (backend \<noteq> - 1 \<and> fst (GetCurrentGraphicsBackend st) = RendererBackend_OpenGL \<longrightarrow>
        shader_backend (UpdateShaderBackendSelection st backend) = word_of_int backend)
   \<and> (UpdateDeviceSelection st device)
        \<lparr>vulkan_device := vulkan_device st, settings_values := settings_values st\<rparr> = st
   \<and> (UpdateShaderBackendSelection st backend)
        \<lparr>shader_backend := shader_backend st, settings_values := settings_values st\<rparr> = st
   \<and> same_but_use_global (settings_values st) (settings_values (UpdateDeviceSelection st device))
   \<and> same_but_use_global (settings_values st)
        (settings_values (UpdateShaderBackendSelection st backend))
   \<and> (configuring_global st \<longrightarrow>
        settings_values (UpdateDeviceSelection st device) = settings_values st \<and>
        settings_values (UpdateShaderBackendSelection st backend) = settings_values st)"
proof -
  obtain b st0 where g: "GetCurrentGraphicsBackend st = (b, st0)"
    by (cases "GetCurrentGraphicsBackend st")
  have st0: "st0 = (if configuring_global st then st
      else st\<lparr>settings_values := (settings_values st)
               \<lparr>values_renderer_backend := (values_renderer_backend (settings_values st))
                  \<lparr>use_global := (currentIndex (api_combobox st) = USE_GLOBAL_INDEX)\<rparr>\<rparr>\<rparr>)"
    using GetCurrentGraphicsBackend_state [of st] g by simp
  have d: "UpdateDeviceSelection st device =
      (if device = - 1 then st
       else if b = RendererBackend_Vulkan then st0\<lparr>vulkan_device := word_of_int device\<rparr> else st0)"
    by (simp add: UpdateDeviceSelection_def g)
  have s: "UpdateShaderBackendSelection st backend =
      (if backend = - 1 then st
       else if b = RendererBackend_OpenGL then st0\<lparr>shader_backend := word_of_int backend\<rparr> else st0)"
    by (simp add: UpdateShaderBackendSelection_def g)
  have "UpdateDeviceSelection st (- 1) = st" "UpdateShaderBackendSelection st (- 1) = st"
    by (simp_all add: UpdateDeviceSelection_def UpdateShaderBackendSelection_def)
  moreover have "fst (GetCurrentGraphicsBackend st) \<noteq> RendererBackend_Vulkan \<longrightarrow>
        vulkan_device (UpdateDeviceSelection st device) = vulkan_device st"
    by (simp add: d g st0)
  moreover have "fst (GetCurrentGraphicsBackend st) \<noteq> RendererBackend_OpenGL \<longrightarrow>
        shader_backend (UpdateShaderBackendSelection st backend) = shader_backend st"
    by (simp add: s g st0)
  moreover have "device \<noteq> - 1 \<and> fst (GetCurrentGraphicsBackend st) = RendererBackend_Vulkan \<longrightarrow>
        vulkan_device (UpdateDeviceSelection st device) = word_of_int device"
    by (simp add: d g)
  moreover have "backend \<noteq> - 1 \<and> fst (GetCurrentGraphicsBackend st) = RendererBackend_OpenGL \<longrightarrow>
        shader_backend (UpdateShaderBackendSelection st backend) = word_of_int backend"
    by (simp add: s g)
  moreover have "(UpdateDeviceSelection st device)
        \<lparr>vulkan_device := vulkan_device st, settings_values := settings_values st\<rparr> = st"
    by (simp add: d st0)
  moreover have "(UpdateShaderBackendSelection st backend)
        \<lparr>shader_backend := shader_backend st, settings_values := settings_values st\<rparr> = st"
    by (simp add: s st0)
  moreover have "same_but_use_global (settings_values st)
        (settings_values (UpdateDeviceSelection st device))"
    by (simp add: d st0 same_but_use_global_def)
  moreover have "same_but_use_global (settings_values st)
        (settings_values (UpdateShaderBackendSelection st backend))"
    by (simp add: s st0 same_but_use_global_def)
  moreover have "configuring_global st \<longrightarrow>
        settings_values (UpdateDeviceSelection st device) = settings_values st \<and>
        settings_values (UpdateShaderBackendSelection st backend) = settings_values st"
    by (simp add: d s st0)
  ultimately show ?thesis by blast
qed

theorem selection_updates_frame_witness:
  "fst (GetCurrentGraphicsBackend example_tab) = RendererBackend_Vulkan
   \<and> configuring_global example_tab
   \<and> UpdateDeviceSelection example_tab 3 = example_tab\<lparr>vulkan_device := 3\<rparr>
   \<and> UpdateShaderBackendSelection example_tab 1 = example_tab
   \<and> fst (GetCurrentGraphicsBackend (select_api example_tab 0)) = RendererBackend_OpenGL
   \<and> UpdateDeviceSelection (select_api example_tab 0) 3 = select_api example_tab 0
   \<and> UpdateShaderBackendSelection (select_api example_tab 0) 1 =
       (select_api example_tab 0)\<lparr>shader_backend := 1\<rparr>"
  using selection_updates_frame [of example_tab 3 1]
    selection_updates_frame [of "select_api example_tab 0" 3 1]
  by (simp add: UpdateDeviceSelection_def UpdateShaderBackendSelection_def
        GetCurrentGraphicsBackend_def example_defs select_api_def setCurrentIndex_def
        renderer_backend_defs)

text \<open>
  C10 as stated fails: in a per-profile configuration both operations, called with an
  index other than \<open>-1\<close>, turn the use-global flag of the renderer backend
  setting from false to true, also where the stored selection stays as it is.
\<close>

theorem selection_updates_set_use_global_flag:
  "\<not> configuring_global per_profile_tab
   \<and> use_global (values_renderer_backend (settings_values per_profile_tab)) = False
   \<and> vulkan_device per_profile_tab = 0
   \<and> UpdateDeviceSelection per_profile_tab 0 =
       per_profile_tab
         \<lparr>settings_values := (settings_values per_profile_tab)
            \<lparr>values_renderer_backend := (values_renderer_backend (settings_values per_profile_tab))
               \<lparr>use_global := True\<rparr>\<rparr>\<rparr>
   \<and> UpdateShaderBackendSelection per_profile_tab 1 =
       per_profile_tab
         \<lparr>settings_values := (settings_values per_profile_tab)
            \<lparr>values_renderer_backend := (values_renderer_backend (settings_values per_profile_tab))
               \<lparr>use_global := True\<rparr>\<rparr>\<rparr>
   \<and> UpdateDeviceSelection per_profile_tab 0 \<noteq> per_profile_tab
   \<and> UpdateShaderBackendSelection per_profile_tab 1 \<noteq> per_profile_tab"
  by (simp add: UpdateDeviceSelection_def UpdateShaderBackendSelection_def per_profile_tab_backend)
     (simp add: example_defs renderer_backend_defs)

section \<open>Rebuilding twice\<close>

text \<open>
  X1. A rebuild is idempotent on what it produces: a state that a rebuild with a backend
  other than Null returned, with an offered list without duplicates, is returned unchanged
  by a second rebuild. Every such state is therefore one of the states the round trip
  above starts from.
\<close>

theorem rebuild_idempotent:
  assumes g: "GetCurrentGraphicsBackend st = (b, st0)"
    and nn: "b \<noteq> RendererBackend_Null"
    and r: "PopulateVSyncModeSelection st = Inr (st1, sel)"
    and d: "distinct (vsync_mode_combobox_enum_map st1)"
  shows "\<exists>sel'. PopulateVSyncModeSelection st1 = Inr (st1, sel')"
proof -
  define L where "L = filter (\<lambda>m. TranslateVSyncMode (tr st) m b \<noteq> []) (source_modes b st)"
  define c where "c = (case last_position (previous_mode st) L of
       Some k \<Rightarrow> int k | None \<Rightarrow> if L = [] then - 1 else 0)"
  have rd: "reads_in_bounds b st"
    using g nn r by (rule Populate_Inr_reads)
  have st0: "st0 = (if configuring_global st then st
      else st\<lparr>settings_values := (settings_values st)
               \<lparr>values_renderer_backend := (values_renderer_backend (settings_values st))
                  \<lparr>use_global := (currentIndex (api_combobox st) = USE_GLOBAL_INDEX)\<rparr>\<rparr>\<rparr>)"
    using GetCurrentGraphicsBackend_state [of st] g by simp
  from Populate_in_bounds [OF g nn rd] r
  have st1: "st1 = st0\<lparr>vsync_mode_combobox := (vsync_mode_combobox st)
                     \<lparr>items := map (\<lambda>m. TranslateVSyncMode (tr st) m b) L,
                      currentIndex := c, enabled := True\<rparr>,
                   vsync_mode_combobox_enum_map := L\<rparr>"
    by (simp add: Let_def L_def c_def)
  have g1s: "snd (GetCurrentGraphicsBackend st1) = st1"
    unfolding GetCurrentGraphicsBackend_state by (simp add: st1 st0)
  have "fst (GetCurrentGraphicsBackend st1) = fst (GetCurrentGraphicsBackend st)"
    by (rule backend_cong) (simp_all add: st1 st0)
  with g g1s have g1: "GetCurrentGraphicsBackend st1 = (b, st1)"
    by (metis fst_conv prod.collapse)
  have cr: "c = - 1 \<or> (0 \<le> c \<and> c < int (length L))"
    unfolding c_def by (rule last_position_range)
  have rd1: "reads_in_bounds b st1"
    using rd cr by (simp add: reads_in_bounds_def st1 st0)
  have src: "source_modes b st1 = source_modes b st" "tr st1 = tr st"
    by (simp_all add: source_modes_def st1 st0)
  have dL: "distinct L" using d by (simp add: st1)
  have f1: "currentIndex (vsync_mode_combobox st1) = c" "vsync_mode_combobox_enum_map st1 = L"
    "values_vsync_mode (settings_values st1) = values_vsync_mode (settings_values st)"
    by (simp_all add: st1 st0)
  have pm1: "previous_mode st1 =
      (if c = - 1 then VSyncSettingToMode (GetValue (values_vsync_mode (settings_values st)))
       else L ! nat c)"
    by (simp add: previous_mode_def f1)
  have c': "(case last_position (previous_mode st1) L of
       Some k \<Rightarrow> int k | None \<Rightarrow> if L = [] then - 1 else 0) = c"
  proof (cases "last_position (previous_mode st) L")
    case (Some k)
    from last_position_Some [OF Some] have "k < length L" "L ! k = previous_mode st" by auto
    then have "previous_mode st1 = previous_mode st"
      using Some by (simp add: pm1 c_def)
    then show ?thesis by (simp add: c_def)
  next
    case None
    show ?thesis
    proof (cases "L = []")
      case True
      then show ?thesis using None by (simp add: c_def)
    next
      case False
      then have c0: "c = 0" using None by (simp add: c_def)
      then have "previous_mode st1 = L ! 0"
        by (simp add: pm1)
      moreover have "last_position (L ! 0) L = Some 0"
        using dL False by (intro last_position_distinct) simp_all
      ultimately show ?thesis by (simp add: c0)
    qed
  qed
  show ?thesis
    unfolding Populate_in_bounds [OF g1 nn rd1] Let_def src L_def [symmetric] c'
    by (simp add: st1)
qed

theorem rebuild_idempotent_witness:
  "GetCurrentGraphicsBackend example_tab = (RendererBackend_Vulkan, example_tab)
   \<and> RendererBackend_Vulkan \<noteq> RendererBackend_Null
   \<and> PopulateVSyncModeSelection example_tab = Inr (populated_tab, Some 1)
   \<and> distinct (vsync_mode_combobox_enum_map populated_tab)
   \<and> PopulateVSyncModeSelection populated_tab = Inr (populated_tab, Some 1)"
proof -
  have nn: "RendererBackend_Vulkan \<noteq> RendererBackend_Null"
    by (simp add: renderer_backend_defs)
  have d: "distinct (vsync_mode_combobox_enum_map populated_tab)"
    by (simp add: populated_tab_def present_mode_defs)
  have g: "GetCurrentGraphicsBackend populated_tab = (RendererBackend_Vulkan, populated_tab)"
    by (simp add: GetCurrentGraphicsBackend_def example_defs RendererBackend_Vulkan_def)
  have sel: "map_option int (last_position (previous_mode populated_tab)
       (filter (\<lambda>m. TranslateVSyncMode (tr populated_tab) m RendererBackend_Vulkan \<noteq> [])
          (source_modes RendererBackend_Vulkan populated_tab))) = Some 1"
    by (simp add: model_defs example_defs present_mode_defs renderer_backend_defs)
  from rebuild_idempotent [OF example_tab_backend nn example_tab_rebuild d]
  obtain sel' where r: "PopulateVSyncModeSelection populated_tab = Inr (populated_tab, sel')"
    by blast
  have rd: "reads_in_bounds RendererBackend_Vulkan populated_tab"
    using g nn r by (rule Populate_Inr_reads)
  have "sel' = Some 1"
    using Populate_in_bounds [OF g nn rd] r sel by (simp add: Let_def)
  with r show ?thesis
    using example_tab_backend nn example_tab_rebuild d by simp
qed

end
